theory Spec2Isabelle
  imports Complex_Main
begin

section \<open>Conventions\<close>

text \<open>
  The backend is JavaScript on Mongoose documents. A JavaScript \<^verbatim>\<open>Number\<close> is
  modelled as an exact rational (\<^typ>\<open>rat\<close>): the arithmetic of the pricing code is
  kept as written, without binary rounding and without NaN or Infinity. A Mongoose
  \<^verbatim>\<open>ObjectId\<close> is a natural number, a \<^verbatim>\<open>Date\<close> an integer count of
  milliseconds, and \<^verbatim>\<open>new Date()\<close> / \<^verbatim>\<open>Date.now()\<close> is the argument
  \<open>now\<close> of the function that reads the clock. A field that may hold \<^verbatim>\<open>null\<close>
  is an \<^typ>\<open>'a option\<close>. Record fields carry a short prefix of their schema, since the
  schemas share field names (\<^verbatim>\<open>quantity\<close>, \<^verbatim>\<open>discount\<close>, ...).

  The functions below are the schema methods, the save hooks and the route handlers. The
  validators that the schemas declare (\<^verbatim>\<open>min\<close>, \<^verbatim>\<open>required\<close>, \<^verbatim>\<open>enum\<close>) are run
  by Mongoose, not by this code: a save here always succeeds, so every state the backend
  reaches is a state of the model. Request bodies are taken as parsed, with numbers where
  the handlers compute with them.
\<close>

type_synonym objectId = nat
type_synonym date = int

text \<open>JavaScript truthiness of a number-or-null and of a string-or-null field.\<close>

definition truthyNum :: "rat option \<Rightarrow> bool" where
  "truthyNum v = (case v of None \<Rightarrow> False | Some x \<Rightarrow> x \<noteq> 0)"

definition truthyStr :: "string option \<Rightarrow> bool" where
  "truthyStr v = (case v of None \<Rightarrow> False | Some s \<Rightarrow> s \<noteq> [])"

section \<open>Cart model (Cart.js)\<close>

datatype discountType = Percentage | Fixed

record cartCoupon =
  cc_code :: "string option"
  cc_discount :: rat
  cc_discountType :: discountType

record cartItem =
  ci_id :: objectId
  ci_product :: objectId
  ci_sku :: string
  ci_quantity :: rat
  ci_price :: rat
  ci_variantDetails :: "(string \<times> string) list"
  ci_addedAt :: date

record cart =
  items :: "cartItem list"
  coupon :: cartCoupon
  subtotal :: rat
  discount :: rat
  tax :: rat
  shipping :: rat
  total :: rat
  currency :: string
  lastUpdated :: date

text \<open>The value written by \<^verbatim>\<open>{ code: null, discount: 0, discountType: 'percentage' }\<close>.\<close>

definition noCoupon :: cartCoupon where
  "noCoupon = \<lparr>cc_code = None, cc_discount = 0, cc_discountType = Percentage\<rparr>"

text \<open>\<^verbatim>\<open>cartSchema.methods.calculateTotals\<close>, statement by statement.\<close>

definition calculateTotals :: "cart \<Rightarrow> cart" where
  "calculateTotals c =
    (let subtotal' = foldl (\<lambda>sum item. sum + ci_price item * ci_quantity item) 0 (items c);
         discount' =
           (if truthyStr (cc_code (coupon c)) then
              (if cc_discountType (coupon c) = Percentage
               then (subtotal' * cc_discount (coupon c)) / 100
               else cc_discount (coupon c))
            else 0);
         tax' = (subtotal' - discount') * (8 / 100);
         shipping' = (if subtotal' > 50 then 0 else 599 / 100);
         total' = subtotal' - discount' + tax' + shipping'
     in c\<lparr>subtotal := subtotal', discount := discount', tax := tax',
           shipping := shipping', total := total'\<rparr>)"

text \<open>\<^verbatim>\<open>cartSchema.pre('save')\<close>: every save recomputes the totals and stamps the cart.\<close>

definition save :: "date \<Rightarrow> cart \<Rightarrow> cart" where
  "save now c = (calculateTotals c)\<lparr>lastUpdated := now\<rparr>"

text \<open>
  A new document built by \<^verbatim>\<open>new Cart({ user })\<close>: the schema defaults. The owning
  user is the key under which the cart is stored (the schema declares it unique).
\<close>

definition newCart :: "date \<Rightarrow> cart" where
  "newCart now = \<lparr>items = [], coupon = noCoupon, subtotal = 0, discount = 0, tax = 0,
     shipping = 0, total = 0, currency = ''USD'', lastUpdated = now\<rparr>"

text \<open>
  Mongoose document arrays: \<^verbatim>\<open>items.id(itemId)\<close> is the first sub-document with
  that id, \<^verbatim>\<open>items.pull(itemId)\<close> removes every sub-document with that id, and an
  assignment through a found element changes that element in place.
\<close>

definition itemById :: "objectId \<Rightarrow> cartItem list \<Rightarrow> cartItem option" where
  "itemById itemId xs = find (\<lambda>item. ci_id item = itemId) xs"

definition pull :: "objectId \<Rightarrow> cartItem list \<Rightarrow> cartItem list" where
  "pull itemId xs = filter (\<lambda>item. ci_id item \<noteq> itemId) xs"

fun updateFirst :: "('a \<Rightarrow> bool) \<Rightarrow> ('a \<Rightarrow> 'a) \<Rightarrow> 'a list \<Rightarrow> 'a list" where
  "updateFirst P f [] = []"
| "updateFirst P f (x # xs) = (if P x then f x # xs else x # updateFirst P f xs)"

text \<open>The product document, as far as the cart and order code reads and writes it.\<close>

record inventoryItem =
  inv_sku :: string
  inv_quantity :: rat
  inv_lowStockThreshold :: rat

record product =
  p_name :: string
  p_price :: rat
  p_inventory :: "inventoryItem list"
  p_totalQuantity :: rat
  p_isActive :: bool
  p_salesCount :: rat

text \<open>
  \<^verbatim>\<open>cartSchema.methods.addItem\<close>. The id of a pushed sub-document is chosen by
  Mongoose; it is the argument \<open>newId\<close>. The method recomputes and then saves.
\<close>

definition cart_addItem ::
  "date \<Rightarrow> objectId \<Rightarrow> objectId \<Rightarrow> product \<Rightarrow> string \<Rightarrow> rat \<Rightarrow> (string \<times> string) list \<Rightarrow> cart \<Rightarrow> cart" where
  "cart_addItem now newId productId pdoc sku quantity variantDetails c =
    (let matches = (\<lambda>item. ci_product item = productId \<and> ci_sku item = sku);
         items' =
           (case find matches (items c) of
              Some existing \<Rightarrow>
                updateFirst matches (\<lambda>item. item\<lparr>ci_quantity := ci_quantity item + quantity\<rparr>) (items c)
            | None \<Rightarrow>
                items c @ [\<lparr>ci_id = newId, ci_product = productId, ci_sku = sku,
                   ci_quantity = quantity, ci_price = p_price pdoc,
                   ci_variantDetails = variantDetails, ci_addedAt = now\<rparr>])
     in save now (calculateTotals (c\<lparr>items := items'\<rparr>)))"

text \<open>\<^verbatim>\<open>cartSchema.methods.updateItemQuantity\<close>: \<^verbatim>\<open>null\<close> when the item is unknown.\<close>

definition cart_updateItemQuantity :: "date \<Rightarrow> objectId \<Rightarrow> rat \<Rightarrow> cart \<Rightarrow> cart option" where
  "cart_updateItemQuantity now itemId quantity c =
    (case itemById itemId (items c) of
       None \<Rightarrow> None
     | Some item \<Rightarrow>
         (let items' =
            (if quantity \<le> 0 then pull itemId (items c)
             else updateFirst (\<lambda>i. ci_id i = itemId) (\<lambda>i. i\<lparr>ci_quantity := quantity\<rparr>) (items c))
          in Some (save now (calculateTotals (c\<lparr>items := items'\<rparr>)))))"

definition cart_removeItem :: "date \<Rightarrow> objectId \<Rightarrow> cart \<Rightarrow> cart" where
  "cart_removeItem now itemId c = save now (calculateTotals (c\<lparr>items := pull itemId (items c)\<rparr>))"

definition cart_clearCart :: "date \<Rightarrow> cart \<Rightarrow> cart" where
  "cart_clearCart now c = save now (calculateTotals (c\<lparr>items := [], coupon := noCoupon\<rparr>))"

definition cart_applyCoupon :: "date \<Rightarrow> string option \<Rightarrow> rat \<Rightarrow> discountType \<Rightarrow> cart \<Rightarrow> cart" where
  "cart_applyCoupon now code disc dtype c =
    save now (calculateTotals
      (c\<lparr>coupon := \<lparr>cc_code = code, cc_discount = disc, cc_discountType = dtype\<rparr>\<rparr>))"

definition cart_removeCoupon :: "date \<Rightarrow> cart \<Rightarrow> cart" where
  "cart_removeCoupon now c = save now (calculateTotals (c\<lparr>coupon := noCoupon\<rparr>))"

section \<open>Coupon model (Coupon.js)\<close>

datatype applyTo = All | Products | Categories

record usedByEntry =
  ub_user :: objectId
  ub_count :: rat
  ub_lastUsed :: date

record usageLimit =
  ul_total :: "rat option"
  ul_perUser :: "rat option"

record coupon_doc =
  code :: string
  discountType :: discountType
  discountValue :: rat
  minimumPurchase :: rat
  maximumDiscount :: "rat option"
  usageLimit :: usageLimit
  usageCount :: rat
  usedBy :: "usedByEntry list"
  applicableProducts :: "objectId list"
  applicableCategories :: "objectId list"
  excludeProducts :: "objectId list"
  startDate :: date
  endDate :: date
  isActive :: bool
  applyTo :: applyTo
  updatedAt :: date

text \<open>
  Messages of the API. A message built from a template with a number in it keeps the
  number as an argument instead of its decimal text.
\<close>

datatype message =
  Text string
| OnlyAvailable rat
| MinimumPurchase rat

datatype validity = Valid | Invalid string

datatype userCheck = CanUse | CannotUse string

datatype discountResult =
  NotApplicable message
| Applicable (res_discount: rat) (res_finalTotal: rat)

text \<open>
  The schema validator \<^verbatim>\<open>min: [0, ...]\<close> of \<^verbatim>\<open>usageLimit.total\<close> and
  \<^verbatim>\<open>usageLimit.perUser\<close>: Mongoose runs a \<^verbatim>\<open>min\<close> validator on a value that
  is present and skips \<^verbatim>\<open>null\<close> (the default of both fields).
\<close>

definition minValidator :: "rat \<Rightarrow> rat option \<Rightarrow> bool" where
  "minValidator lo v = (case v of None \<Rightarrow> True | Some x \<Rightarrow> lo \<le> x)"

definition usageLimit_accepts :: "usageLimit \<Rightarrow> bool" where
  "usageLimit_accepts ul = (minValidator 0 (ul_total ul) \<and> minValidator 0 (ul_perUser ul))"

text \<open>\<^verbatim>\<open>couponSchema.methods.isValid\<close>; the four tests in the order of the source.\<close>

definition isValid :: "date \<Rightarrow> coupon_doc \<Rightarrow> validity" where
  "isValid now c =
    (if \<not> isActive c then Invalid ''Coupon is inactive''
     else if now < startDate c then Invalid ''Coupon not yet active''
     else if now > endDate c then Invalid ''Coupon has expired''
     else if truthyNum (ul_total (usageLimit c)) \<and> usageCount c \<ge> the (ul_total (usageLimit c))
       then Invalid ''Usage limit reached''
     else Valid)"

text \<open>\<^verbatim>\<open>couponSchema.methods.canUserUse\<close>.\<close>

definition canUserUse :: "objectId \<Rightarrow> coupon_doc \<Rightarrow> userCheck" where
  "canUserUse userId c =
    (let userUsage = find (\<lambda>u. ub_user u = userId) (usedBy c) in
     if truthyNum (ul_perUser (usageLimit c)) then
       (case userUsage of
          Some u \<Rightarrow> (if ub_count u \<ge> the (ul_perUser (usageLimit c))
                     then CannotUse ''Per-user limit reached'' else CanUse)
        | None \<Rightarrow> CanUse)
     else CanUse)"

text \<open>\<^verbatim>\<open>Math.round(x * 100) / 100\<close>: \<^verbatim>\<open>Math.round\<close> takes the nearest integer, a tie upwards.\<close>

definition mathRound :: "rat \<Rightarrow> int" where
  "mathRound x = \<lfloor>x + 1 / 2\<rfloor>"

definition round2 :: "rat \<Rightarrow> rat" where
  "round2 x = of_int (mathRound (x * 100)) / 100"

text \<open>
  \<^verbatim>\<open>couponSchema.methods.calculateDiscount(subtotal, productIds, categoryIds)\<close>. The two
  list arguments default to the empty list in the source; the caller passes them here.
\<close>

definition calculateDiscount ::
  "coupon_doc \<Rightarrow> rat \<Rightarrow> objectId list \<Rightarrow> objectId list \<Rightarrow> discountResult" where
  "calculateDiscount c subtotal' productIds categoryIds =
    (if applyTo c = Products \<and> length (applicableProducts c) > 0 \<and>
        \<not> list_ex (\<lambda>i. list_ex (\<lambda>apId. apId = i) (applicableProducts c)) productIds
     then NotApplicable (Text ''Coupon not applicable to these products'')
     else if applyTo c = Categories \<and> length (applicableCategories c) > 0 \<and>
        \<not> list_ex (\<lambda>i. list_ex (\<lambda>acId. acId = i) (applicableCategories c)) categoryIds
     then NotApplicable (Text ''Coupon not applicable to these categories'')
     else if subtotal' < minimumPurchase c
     then NotApplicable (MinimumPurchase (minimumPurchase c))
     else
       (let d =
          (if discountType c = Percentage then
             (let d0 = (subtotal' * discountValue c) / 100 in
              if truthyNum (maximumDiscount c) then min d0 (the (maximumDiscount c)) else d0)
           else discountValue c)
        in Applicable (round2 d) (subtotal' - d)))"

text \<open>\<^verbatim>\<open>couponSchema.methods.recordUsage\<close>, with the time stamp of the save hook.\<close>

definition recordUsage :: "date \<Rightarrow> objectId \<Rightarrow> coupon_doc \<Rightarrow> coupon_doc" where
  "recordUsage now userId c =
    (let c1 = c\<lparr>usageCount := usageCount c + 1\<rparr>;
         isUser = (\<lambda>u. ub_user u = userId);
         usedBy' =
           (if list_ex isUser (usedBy c1)
            then updateFirst isUser
                   (\<lambda>u. u\<lparr>ub_count := ub_count u + 1, ub_lastUsed := now\<rparr>) (usedBy c1)
            else usedBy c1 @ [\<lparr>ub_user = userId, ub_count = 1, ub_lastUsed = now\<rparr>])
     in c1\<lparr>usedBy := usedBy', updatedAt := now\<rparr>)"

text \<open>The invariant of the data model: the counter equals the per-user counts added up.\<close>

definition usageConsistent :: "coupon_doc \<Rightarrow> bool" where
  "usageConsistent c = (usageCount c = sum_list (map ub_count (usedBy c)))"

text \<open>A coupon as \<^verbatim>\<open>new Coupon({code, discountType, discountValue, endDate})\<close> builds it.\<close>

definition freshCoupon :: "date \<Rightarrow> string \<Rightarrow> discountType \<Rightarrow> rat \<Rightarrow> date \<Rightarrow> coupon_doc" where
  "freshCoupon now cd ty v end' =
    \<lparr>code = cd, discountType = ty, discountValue = v, minimumPurchase = 0,
     maximumDiscount = None, usageLimit = \<lparr>ul_total = None, ul_perUser = None\<rparr>,
     usageCount = 0, usedBy = [], applicableProducts = [], applicableCategories = [],
     excludeProducts = [], startDate = now, endDate = end', isActive = True, applyTo = All,
     updatedAt = now\<rparr>"

section \<open>Product model: the inventory ledger\<close>

definition findSku :: "string \<Rightarrow> inventoryItem list \<Rightarrow> inventoryItem option" where
  "findSku sku invs = find (\<lambda>i. inv_sku i = sku) invs"

text \<open>\<^verbatim>\<open>inventory.reduce((sum, inv) => sum + inv.quantity, 0)\<close>.\<close>

definition inventoryTotal :: "inventoryItem list \<Rightarrow> rat" where
  "inventoryTotal invs = foldl (\<lambda>sum i. sum + inv_quantity i) 0 invs"

text \<open>
  \<^verbatim>\<open>productSchema.pre('save')\<close>, the part on the stock: the total is recomputed when
  the inventory differs from the one of the loaded document (\<^verbatim>\<open>isModified('inventory')\<close>).
\<close>

definition product_save :: "product \<Rightarrow> product \<Rightarrow> product" where
  "product_save loaded p =
    (if p_inventory p \<noteq> p_inventory loaded
     then p\<lparr>p_totalQuantity := inventoryTotal (p_inventory p)\<rparr> else p)"

text \<open>\<^verbatim>\<open>productSchema.methods.updateStock\<close>: the decrement after a purchase.\<close>

definition product_updateStock :: "string \<Rightarrow> rat \<Rightarrow> product \<Rightarrow> product" where
  "product_updateStock sku quantity p =
    (case findSku sku (p_inventory p) of
       None \<Rightarrow> p
     | Some item \<Rightarrow>
         (let p1 = p\<lparr>p_inventory := updateFirst (\<lambda>i. inv_sku i = sku)
                      (\<lambda>i. i\<lparr>inv_quantity := max 0 (inv_quantity i - quantity)\<rparr>) (p_inventory p)\<rparr>;
              p2 = p1\<lparr>p_totalQuantity := inventoryTotal (p_inventory p1)\<rparr>
          in product_save p p2))"

definition isInStock :: "product \<Rightarrow> bool" where
  "isInStock p = (p_totalQuantity p > 0)"

definition isVariantInStock :: "string \<Rightarrow> product \<Rightarrow> bool" where
  "isVariantInStock sku p =
    (case findSku sku (p_inventory p) of Some item \<Rightarrow> inv_quantity item > 0 | None \<Rightarrow> False)"

definition qtyConsistent :: "product \<Rightarrow> bool" where
  "qtyConsistent p = (p_totalQuantity p = sum_list (map inv_quantity (p_inventory p)))"

section \<open>Order model (Order.js)\<close>

datatype orderStatus =
  Pending | Processing | Shipped | Delivered | Cancelled | Refunded | Returned

fun statusName :: "orderStatus \<Rightarrow> string" where
  "statusName Pending = ''pending''"
| "statusName Processing = ''processing''"
| "statusName Shipped = ''shipped''"
| "statusName Delivered = ''delivered''"
| "statusName Cancelled = ''cancelled''"
| "statusName Refunded = ''refunded''"
| "statusName Returned = ''returned''"

record orderItem =
  oi_product :: objectId
  oi_name :: string
  oi_sku :: string
  oi_price :: rat
  oi_quantity :: rat

record timelineEvent =
  tl_status :: string
  tl_description :: string
  tl_timestamp :: date
  tl_updatedBy :: "objectId option"

text \<open>
  The order document with the fields that cancellation reads or writes; addresses,
  payment, pricing snapshot, tracking and notes are carried by the document unchanged.
\<close>

record order_doc =
  o_orderNumber :: string
  o_user :: objectId
  o_items :: "orderItem list"
  o_status :: orderStatus
  o_timeline :: "timelineEvent list"
  o_updatedAt :: date

text \<open>\<^verbatim>\<open>orderSchema.methods.cancel\<close> and the save hook of a document that is not new.\<close>

definition order_cancel :: "date \<Rightarrow> string \<Rightarrow> objectId \<Rightarrow> order_doc \<Rightarrow> order_doc" where
  "order_cancel now reason updatedBy' ord =
    ord\<lparr>o_status := Cancelled,
        o_timeline := o_timeline ord @
          [\<lparr>tl_status = ''cancelled'',
            tl_description = ''Order cancelled. Reason: '' @ reason,
            tl_timestamp = now, tl_updatedBy = Some updatedBy'\<rparr>],
        o_updatedAt := now\<rparr>"

section \<open>The collections and the replies of the controllers\<close>

record db =
  carts :: "objectId \<rightharpoonup> cart"
  products :: "objectId \<rightharpoonup> product"
  coupons :: "coupon_doc list"
  orders :: "objectId \<rightharpoonup> order_doc"

text \<open>
  \<^verbatim>\<open>carts\<close> is keyed by the owning user (\<^verbatim>\<open>Cart.findOne({ user })\<close>), products and
  orders by \<^verbatim>\<open>_id\<close>; a coupon is looked up by its \<^verbatim>\<open>code\<close> field. A reply is the
  HTTP status with the body's message and data; \<open>Thrown\<close> is an exception that leaves the
  handler (the error middleware is not part of the modelled code).
\<close>

datatype payload =
  CartData cart
| CouponData cart rat
| OrderData order_doc
| StockData string rat rat

datatype reply =
  Failure nat message
| Success string payload
| Thrown

section \<open>Order controller: stock at checkout and at cancellation\<close>

text \<open>
  The loop \<^verbatim>\<open>// Update product stock\<close> of \<^verbatim>\<open>createOrder\<close>: each product is loaded,
  decremented and saved, its sales counter raised and saved again. The flag is False when
  \<^verbatim>\<open>findById\<close> gave \<^verbatim>\<open>null\<close> and the method call threw; the writes made before stay.
\<close>

fun createOrder_updateStock ::
  "cartItem list \<Rightarrow> (objectId \<rightharpoonup> product) \<Rightarrow> bool \<times> (objectId \<rightharpoonup> product)" where
  "createOrder_updateStock [] ps = (True, ps)"
| "createOrder_updateStock (item # rest) ps =
    (case ps (ci_product item) of
       None \<Rightarrow> (False, ps)
     | Some p \<Rightarrow>
         (let p1 = product_updateStock (ci_sku item) (ci_quantity item) p;
              p2 = p1\<lparr>p_salesCount := p_salesCount p1 + ci_quantity item\<rparr>
          in createOrder_updateStock rest (ps(ci_product item \<mapsto> product_save p1 p2))))"

text \<open>The body of the loop \<^verbatim>\<open>// Restore stock\<close> of \<^verbatim>\<open>cancelOrder\<close>.\<close>

definition restoreItem :: "orderItem \<Rightarrow> (objectId \<rightharpoonup> product) \<Rightarrow> (objectId \<rightharpoonup> product)" where
  "restoreItem item ps =
    (case ps (oi_product item) of
       None \<Rightarrow> ps
     | Some p \<Rightarrow>
         (case findSku (oi_sku item) (p_inventory p) of
            None \<Rightarrow> ps
          | Some inventoryItem \<Rightarrow>
              (let p1 = p\<lparr>p_inventory := updateFirst (\<lambda>i. inv_sku i = oi_sku item)
                           (\<lambda>i. i\<lparr>inv_quantity := inv_quantity i + oi_quantity item\<rparr>) (p_inventory p)\<rparr>;
                   p2 = p1\<lparr>p_totalQuantity := inventoryTotal (p_inventory p1)\<rparr>;
                   p3 = p2\<lparr>p_salesCount := p_salesCount p2 - oi_quantity item\<rparr>
               in ps(oi_product item \<mapsto> product_save p p3))))"

definition cancelOrder :: "date \<Rightarrow> objectId \<Rightarrow> objectId \<Rightarrow> string option \<Rightarrow> db \<Rightarrow> reply \<times> db" where
  "cancelOrder now user orderId reason d =
    (case (case orders d orderId of
             Some ord \<Rightarrow> if o_user ord = user then Some ord else None
           | None \<Rightarrow> None) of
       None \<Rightarrow> (Failure 404 (Text ''Order not found''), d)
     | Some ord \<Rightarrow>
         if o_status ord \<notin> set [Pending, Processing]
         then (Failure 400 (Text (''Cannot cancel order with status: '' @ statusName (o_status ord))), d)
         else
           (let ps = fold restoreItem (o_items ord) (products d);
                ord' = order_cancel now
                         (if truthyStr reason then the reason else ''Cancelled by customer'') user ord
            in (Success ''Order cancelled successfully'' (OrderData ord'),
                d\<lparr>products := ps, orders := (orders d)(orderId \<mapsto> ord')\<rparr>)))"

section \<open>Product controller: the admin stock update\<close>

definition updateStock :: "objectId \<Rightarrow> string \<Rightarrow> rat \<Rightarrow> db \<Rightarrow> reply \<times> db" where
  "updateStock productId sku quantity d =
    (case products d productId of
       None \<Rightarrow> (Failure 404 (Text ''Product not found''), d)
     | Some p \<Rightarrow>
         (case findSku sku (p_inventory p) of
            None \<Rightarrow> (Failure 404 (Text ''Inventory item not found''), d)
          | Some inventoryItem \<Rightarrow>
              (let p1 = p\<lparr>p_inventory := updateFirst (\<lambda>i. inv_sku i = sku)
                           (\<lambda>i. i\<lparr>inv_quantity := quantity\<rparr>) (p_inventory p)\<rparr>;
                   p2 = p1\<lparr>p_totalQuantity := inventoryTotal (p_inventory p1)\<rparr>;
                   p3 = product_save p p2
               in (Success ''Stock updated successfully''
                     (StockData sku quantity (p_totalQuantity p3)),
                   d\<lparr>products := (products d)(productId \<mapsto> p3)\<rparr>))))"

section \<open>Cart controller (cart.controller.js)\<close>

text \<open>\<^verbatim>\<open>String.prototype.toUpperCase\<close> on the ASCII letters (a coupon code is ASCII).\<close>

definition upperChar :: "char \<Rightarrow> char" where
  "upperChar ch =
    (let n = (of_char ch :: nat) in if 97 \<le> n \<and> n \<le> 122 then char_of (n - 32) else ch)"

definition toUpperCase :: "string \<Rightarrow> string" where
  "toUpperCase s = map upperChar s"

text \<open>
  The schema declares \<^verbatim>\<open>code\<close> with \<^verbatim>\<open>uppercase: true, trim: true\<close>. Mongoose runs
  these setters on a stored code and also on the \<^verbatim>\<open>code\<close> of a \<^verbatim>\<open>findOne\<close> filter,
  so the key a coupon is looked up by is the filter's code in upper case with the white
  space at both ends removed (\<^verbatim>\<open>String.prototype.trim\<close>, on the ASCII white space).
\<close>

definition isSpace :: "char \<Rightarrow> bool" where
  "isSpace ch = (let n = (of_char ch :: nat) in n = 32 \<or> (9 \<le> n \<and> n \<le> 13))"

definition trim :: "string \<Rightarrow> string" where
  "trim s = rev (dropWhile isSpace (rev (dropWhile isSpace s)))"

definition castCode :: "string \<Rightarrow> string" where
  "castCode s = trim (toUpperCase s)"

definition putCart :: "objectId \<Rightarrow> cart \<Rightarrow> db \<Rightarrow> db" where
  "putCart user c d = d\<lparr>carts := (carts d)(user \<mapsto> c)\<rparr>"

definition getCart :: "date \<Rightarrow> objectId \<Rightarrow> db \<Rightarrow> reply \<times> db" where
  "getCart now user d =
    (case carts d user of
       None \<Rightarrow> (let newCart' = save now (newCart now)
                in (Success [] (CartData newCart'), putCart user newCart' d))
     | Some c \<Rightarrow> (Success [] (CartData c), d))"

definition addItem ::
  "date \<Rightarrow> objectId \<Rightarrow> objectId \<Rightarrow> objectId \<Rightarrow> string \<Rightarrow> rat \<Rightarrow> (string \<times> string) list \<Rightarrow> db
     \<Rightarrow> reply \<times> db" where
  "addItem now newId user productId sku quantity variantDetails d =
    (case (case products d productId of
             Some p \<Rightarrow> if p_isActive p then Some p else None | None \<Rightarrow> None) of
       None \<Rightarrow> (Failure 404 (Text ''Product not found''), d)
     | Some p \<Rightarrow>
         (case findSku sku (p_inventory p) of
            None \<Rightarrow> (Failure 404 (Text ''Product variant not found''), d)
          | Some inventoryItem \<Rightarrow>
              if inv_quantity inventoryItem < quantity
              then (Failure 400 (OnlyAvailable (inv_quantity inventoryItem)), d)
              else
                (let c = (case carts d user of Some c0 \<Rightarrow> c0 | None \<Rightarrow> newCart now);
                     matches = (\<lambda>item. ci_product item = productId \<and> ci_sku item = sku)
                 in case find matches (items c) of
                      Some existing \<Rightarrow>
                        (let newQuantity = ci_quantity existing + quantity in
                         if inv_quantity inventoryItem < newQuantity
                         then (Failure 400 (OnlyAvailable (inv_quantity inventoryItem)), d)
                         else
                           (let c' = save now (c\<lparr>items := updateFirst matches
                                       (\<lambda>item. item\<lparr>ci_quantity := newQuantity\<rparr>) (items c)\<rparr>)
                            in (Success ''Item added to cart'' (CartData c'), putCart user c' d)))
                    | None \<Rightarrow>
                        (let c' = save now (c\<lparr>items := items c @
                                    [\<lparr>ci_id = newId, ci_product = productId, ci_sku = sku,
                                      ci_quantity = quantity, ci_price = p_price p,
                                      ci_variantDetails = variantDetails, ci_addedAt = now\<rparr>]\<rparr>)
                         in (Success ''Item added to cart'' (CartData c'), putCart user c' d)))))"

definition updateItemQuantity :: "date \<Rightarrow> objectId \<Rightarrow> objectId \<Rightarrow> rat \<Rightarrow> db \<Rightarrow> reply \<times> db" where
  "updateItemQuantity now user itemId quantity d =
    (case carts d user of
       None \<Rightarrow> (Failure 404 (Text ''Cart not found''), d)
     | Some c \<Rightarrow>
         (case itemById itemId (items c) of
            None \<Rightarrow> (Failure 404 (Text ''Cart item not found''), d)
          | Some cartItem \<Rightarrow>
              (case products d (ci_product cartItem) of
                 None \<Rightarrow> (Thrown, d)
               | Some p \<Rightarrow>
                   (case (case findSku (ci_sku cartItem) (p_inventory p) of
                            Some inventoryItem \<Rightarrow>
                              if inv_quantity inventoryItem < quantity
                              then Some (inv_quantity inventoryItem) else None
                          | None \<Rightarrow> None) of
                      Some available \<Rightarrow> (Failure 400 (OnlyAvailable available), d)
                    | None \<Rightarrow>
                        (let items' =
                           (if quantity \<le> 0 then pull itemId (items c)
                            else updateFirst (\<lambda>i. ci_id i = itemId)
                                   (\<lambda>i. i\<lparr>ci_quantity := quantity\<rparr>) (items c));
                             c' = save now (c\<lparr>items := items'\<rparr>)
                         in (Success ''Cart updated'' (CartData c'), putCart user c' d))))))"

definition removeItem :: "date \<Rightarrow> objectId \<Rightarrow> objectId \<Rightarrow> db \<Rightarrow> reply \<times> db" where
  "removeItem now user itemId d =
    (case carts d user of
       None \<Rightarrow> (Failure 404 (Text ''Cart not found''), d)
     | Some c \<Rightarrow>
         (let c' = save now (c\<lparr>items := pull itemId (items c)\<rparr>)
          in (Success ''Item removed from cart'' (CartData c'), putCart user c' d)))"

definition clearCart :: "date \<Rightarrow> objectId \<Rightarrow> db \<Rightarrow> reply \<times> db" where
  "clearCart now user d =
    (case carts d user of
       None \<Rightarrow> (Failure 404 (Text ''Cart not found''), d)
     | Some c \<Rightarrow>
         (let c' = save now (c\<lparr>items := [], coupon := noCoupon\<rparr>)
          in (Success ''Cart cleared'' (CartData c'), putCart user c' d)))"

definition applyCoupon :: "date \<Rightarrow> objectId \<Rightarrow> string \<Rightarrow> db \<Rightarrow> reply \<times> db" where
  "applyCoupon now user codeReq d =
    (case carts d user of
       None \<Rightarrow> (Failure 404 (Text ''Cart not found''), d)
     | Some c \<Rightarrow>
         if length (items c) = 0
         then (Failure 400 (Text ''Cannot apply coupon to empty cart''), d)
         else
           (case find (\<lambda>cp. code cp = castCode (toUpperCase codeReq)) (coupons d) of
              None \<Rightarrow> (Failure 404 (Text ''Invalid coupon code''), d)
            | Some cp \<Rightarrow>
                (case isValid now cp of
                   Invalid reason \<Rightarrow> (Failure 400 (Text reason), d)
                 | Valid \<Rightarrow>
                     (case canUserUse user cp of
                        CannotUse reason \<Rightarrow> (Failure 400 (Text reason), d)
                      | CanUse \<Rightarrow>
                          (case calculateDiscount cp (subtotal c) (map ci_product (items c)) [] of
                             NotApplicable reason \<Rightarrow> (Failure 400 reason, d)
                           | Applicable disc finalTotal \<Rightarrow>
                               (let c' = save now
                                      (c\<lparr>coupon := \<lparr>cc_code = Some (code cp),
                                                     cc_discount = discountValue cp,
                                                     cc_discountType = discountType cp\<rparr>\<rparr>)
                                in (Success ''Coupon applied successfully'' (CouponData c' disc),
                                    putCart user c' d)))))))"

definition removeCoupon :: "date \<Rightarrow> objectId \<Rightarrow> db \<Rightarrow> reply \<times> db" where
  "removeCoupon now user d =
    (case carts d user of
       None \<Rightarrow> (Failure 404 (Text ''Cart not found''), d)
     | Some c \<Rightarrow>
         (let c' = save now (c\<lparr>coupon := noCoupon\<rparr>)
          in (Success ''Coupon removed'' (CartData c'), putCart user c' d)))"

text \<open>
  \<^verbatim>\<open>syncCart\<close>: the items of the request that name an active product and a stocked
  SKU replace the cart's items. \<open>newIds k\<close> is the id Mongoose gives the k-th kept item.
\<close>

record syncItem =
  si_productId :: objectId
  si_sku :: string
  si_quantity :: rat
  si_variantDetails :: "(string \<times> string) list"

fun syncItems ::
  "date \<Rightarrow> (nat \<Rightarrow> objectId) \<Rightarrow> (objectId \<rightharpoonup> product) \<Rightarrow> syncItem list \<Rightarrow> cartItem list
     \<Rightarrow> cartItem list" where
  "syncItems now newIds ps [] validItems = validItems"
| "syncItems now newIds ps (item # rest) validItems =
    (case ps (si_productId item) of
       None \<Rightarrow> syncItems now newIds ps rest validItems
     | Some p \<Rightarrow>
         if \<not> p_isActive p then syncItems now newIds ps rest validItems
         else
           (case findSku (si_sku item) (p_inventory p) of
              None \<Rightarrow> syncItems now newIds ps rest validItems
            | Some inventoryItem \<Rightarrow>
                if inv_quantity inventoryItem > 0
                then syncItems now newIds ps rest (validItems @
                       [\<lparr>ci_id = newIds (length validItems), ci_product = si_productId item,
                         ci_sku = si_sku item,
                         ci_quantity = min (si_quantity item) (inv_quantity inventoryItem),
                         ci_price = p_price p, ci_variantDetails = si_variantDetails item,
                         ci_addedAt = now\<rparr>])
                else syncItems now newIds ps rest validItems))"

definition syncCart :: "date \<Rightarrow> (nat \<Rightarrow> objectId) \<Rightarrow> objectId \<Rightarrow> syncItem list \<Rightarrow> db \<Rightarrow> reply \<times> db" where
  "syncCart now newIds user reqItems d =
    (let c = (case carts d user of Some c0 \<Rightarrow> c0 | None \<Rightarrow> newCart now);
         c' = save now (c\<lparr>items := syncItems now newIds (products d) reqItems []\<rparr>)
     in (Success ''Cart synced'' (CartData c'), putCart user c' d))"

text \<open>
  The mutating operations on a cart: the six handlers of the API, cart creation by
  \<^verbatim>\<open>getCart\<close> and \<^verbatim>\<open>syncCart\<close>, and the six document methods of Cart.js
  (checkout clears the cart through the method \<^verbatim>\<open>clearCart\<close>). Products and
  coupons are changed by other parts of the backend, so a step may meet any of them.
\<close>

definition setCatalog :: "(objectId \<rightharpoonup> product) \<Rightarrow> coupon_doc list \<Rightarrow> db \<Rightarrow> db" where
  "setCatalog ps cps d = d\<lparr>products := ps, coupons := cps\<rparr>"

definition viaMethod :: "objectId \<Rightarrow> (cart \<Rightarrow> cart option) \<Rightarrow> db \<Rightarrow> db" where
  "viaMethod user m d =
    (case carts d user of
       None \<Rightarrow> d
     | Some c \<Rightarrow> (case m c of None \<Rightarrow> d | Some c' \<Rightarrow> putCart user c' d))"

inductive reachable :: "db \<Rightarrow> bool" where
  r_init: "carts d = Map.empty \<Longrightarrow> reachable d"
| r_catalog: "reachable d \<Longrightarrow> reachable (setCatalog ps cps d)"
| r_getCart: "reachable d \<Longrightarrow> reachable (snd (getCart now user d))"
| r_addItem: "reachable d \<Longrightarrow> reachable (snd (addItem now newId user pid sku q vd d))"
| r_updateItemQuantity: "reachable d \<Longrightarrow> reachable (snd (updateItemQuantity now user itemId q d))"
| r_removeItem: "reachable d \<Longrightarrow> reachable (snd (removeItem now user itemId d))"
| r_clearCart: "reachable d \<Longrightarrow> reachable (snd (clearCart now user d))"
| r_applyCoupon: "reachable d \<Longrightarrow> reachable (snd (applyCoupon now user codeReq d))"
| r_removeCoupon: "reachable d \<Longrightarrow> reachable (snd (removeCoupon now user d))"
| r_syncCart: "reachable d \<Longrightarrow> reachable (snd (syncCart now newIds user reqItems d))"
| m_addItem: "reachable d \<Longrightarrow>
    reachable (viaMethod user (\<lambda>c. Some (cart_addItem now newId pid pdoc sku q vd c)) d)"
| m_updateItemQuantity: "reachable d \<Longrightarrow>
    reachable (viaMethod user (cart_updateItemQuantity now itemId q) d)"
| m_removeItem: "reachable d \<Longrightarrow>
    reachable (viaMethod user (\<lambda>c. Some (cart_removeItem now itemId c)) d)"
| m_clearCart: "reachable d \<Longrightarrow>
    reachable (viaMethod user (\<lambda>c. Some (cart_clearCart now c)) d)"
| m_applyCoupon: "reachable d \<Longrightarrow>
    reachable (viaMethod user (\<lambda>c. Some (cart_applyCoupon now cd disc ty c)) d)"
| m_removeCoupon: "reachable d \<Longrightarrow>
    reachable (viaMethod user (\<lambda>c. Some (cart_removeCoupon now c)) d)"

text \<open>The invariant of the stored totals.\<close>

definition totalsOk :: "cart \<Rightarrow> bool" where
  "totalsOk c =
    (subtotal c = (\<Sum>item\<leftarrow>items c. ci_price item * ci_quantity item) \<and>
     total c = subtotal c - discount c + tax c + shipping c \<and>
     calculateTotals c = c)"

definition cartsOk :: "db \<Rightarrow> bool" where
  "cartsOk d = (\<forall>u c. carts d u = Some c \<longrightarrow> totalsOk c)"

section \<open>Concrete documents\<close>

definition mkItem :: "objectId \<Rightarrow> objectId \<Rightarrow> string \<Rightarrow> rat \<Rightarrow> rat \<Rightarrow> cartItem" where
  "mkItem i pid sku price q = \<lparr>ci_id = i, ci_product = pid, ci_sku = sku, ci_quantity = q,
     ci_price = price, ci_variantDetails = [], ci_addedAt = 0\<rparr>"

text \<open>The cart of the pricing scenario: $20 x 2 and $15 x 1 under a 10% coupon.\<close>

definition scenarioCart :: cart where
  "scenarioCart = (newCart 0)\<lparr>items := [mkItem 1 1 ''A'' 20 2, mkItem 2 2 ''B'' 15 1],
     coupon := \<lparr>cc_code = Some ''SAVE10'', cc_discount = 10, cc_discountType = Percentage\<rparr>\<rparr>"

definition exProduct :: product where
  "exProduct = \<lparr>p_name = ''Mug'', p_price = 20,
     p_inventory = [\<lparr>inv_sku = ''MUG-1'', inv_quantity = 5, inv_lowStockThreshold = 10\<rparr>,
                    \<lparr>inv_sku = ''MUG-2'', inv_quantity = 3, inv_lowStockThreshold = 10\<rparr>],
     p_totalQuantity = 8, p_isActive = True, p_salesCount = 4\<rparr>"

text \<open>A shop with one product and two coupons, valid from time 0 to time 1000.\<close>

definition exDb :: db where
  "exDb = \<lparr>carts = Map.empty, products = [7 \<mapsto> exProduct],
     coupons = [freshCoupon 0 ''BIG100'' Fixed 100 1000,
                freshCoupon 0 ''SAVE10'' Percentage 10 1000],
     orders = Map.empty\<rparr>"

text \<open>User 1 puts one mug ($20) into the cart, then applies the fixed $100 coupon.\<close>

definition exDbOneItem :: db where
  "exDbOneItem = snd (addItem 1 100 1 7 ''MUG-1'' 1 [] exDb)"

definition exDbFixed :: db where
  "exDbFixed = snd (applyCoupon 5 1 ''big100'' exDbOneItem)"

text \<open>Coupons for the evaluator: a product scope without an allow-list, one with.\<close>

definition scopedCoupon :: coupon_doc where
  "scopedCoupon = (freshCoupon 0 ''MUGS10'' Percentage 10 1000)\<lparr>applyTo := Products\<rparr>"

definition mugCoupon :: coupon_doc where
  "mugCoupon = scopedCoupon\<lparr>applicableProducts := [7], maximumDiscount := Some 4\<rparr>"

text \<open>A coupon with both limits stored as 0, already used three times by user 4.\<close>

definition zeroLimitCoupon :: coupon_doc where
  "zeroLimitCoupon = (freshCoupon 0 ''ZERO'' Fixed 5 1000)
     \<lparr>usageLimit := \<lparr>ul_total = Some 0, ul_perUser = Some 0\<rparr>, usageCount := 3,
      usedBy := [\<lparr>ub_user = 4, ub_count = 3, ub_lastUsed = 10\<rparr>]\<rparr>"

text \<open>
  The shop of user 1's one-mug cart with three coupons: ONCE may be used once per user
  and user 1 has used it, SPENT has a total limit of 2 and has been used twice.
\<close>

definition onceCoupon :: coupon_doc where
  "onceCoupon = (freshCoupon 0 ''ONCE'' Percentage 10 1000)
     \<lparr>usageLimit := \<lparr>ul_total = None, ul_perUser = Some 1\<rparr>, usageCount := 1,
      usedBy := [\<lparr>ub_user = 1, ub_count = 1, ub_lastUsed = 3\<rparr>]\<rparr>"

definition spentCoupon :: coupon_doc where
  "spentCoupon = (freshCoupon 0 ''SPENT'' Fixed 5 1000)
     \<lparr>usageLimit := \<lparr>ul_total = Some 2, ul_perUser = None\<rparr>, usageCount := 2,
      usedBy := [\<lparr>ub_user = 4, ub_count = 2, ub_lastUsed = 3\<rparr>]\<rparr>"

definition exDbLimits :: db where
  "exDbLimits = exDbOneItem\<lparr>coupons :=
     [onceCoupon, spentCoupon, freshCoupon 0 ''SAVE10'' Percentage 10 1000]\<rparr>"

section \<open>Reading the ledger\<close>

text \<open>
  The quantity a product holds for a SKU (that of the first record with the SKU, the one
  \<^verbatim>\<open>inventory.find\<close> returns) and its sales counter, as the database has them.
\<close>

definition stockOf :: "(objectId \<rightharpoonup> product) \<Rightarrow> objectId \<Rightarrow> string \<Rightarrow> rat option" where
  "stockOf ps pid sku =
    (case ps pid of None \<Rightarrow> None | Some p \<Rightarrow> map_option inv_quantity (findSku sku (p_inventory p)))"

definition salesOf :: "(objectId \<rightharpoonup> product) \<Rightarrow> objectId \<Rightarrow> rat option" where
  "salesOf ps pid = map_option p_salesCount (ps pid)"

text \<open>
  What an order's line items give back: to a SKU, the quantities of the items naming it;
  to a product's sales counter, the quantities of its items whose SKU the product holds.
\<close>

definition restoredQty :: "orderItem list \<Rightarrow> objectId \<Rightarrow> string \<Rightarrow> rat" where
  "restoredQty its pid sku =
    sum_list (map oi_quantity (filter (\<lambda>i. oi_product i = pid \<and> oi_sku i = sku) its))"

definition restoredSales :: "(objectId \<rightharpoonup> product) \<Rightarrow> orderItem list \<Rightarrow> objectId \<Rightarrow> rat" where
  "restoredSales ps its pid =
    sum_list (map oi_quantity
      (filter (\<lambda>i. oi_product i = pid \<and> stockOf ps pid (oi_sku i) \<noteq> None) its))"

text \<open>
  Between two states of the product collection: every product of the later state has a
  total equal to the sum of its records, or has the inventory and total it had before.
\<close>

definition stockKept :: "(objectId \<rightharpoonup> product) \<Rightarrow> (objectId \<rightharpoonup> product) \<Rightarrow> bool" where
  "stockKept ps ps' =
    (\<forall>pid p'. ps' pid = Some p' \<longrightarrow>
       qtyConsistent p' \<or>
       (\<exists>p. ps pid = Some p \<and> p_inventory p' = p_inventory p \<and>
            p_totalQuantity p' = p_totalQuantity p))"

text \<open>
  A shop with two products and the pending order 50 of user 1: two mugs (SKU MUG-1) and
  one plate. The plate's stored total is stale (9 against a stock of 0).
\<close>

definition exPlate :: product where
  "exPlate = \<lparr>p_name = ''Plate'', p_price = 15,
     p_inventory = [\<lparr>inv_sku = ''PLATE-1'', inv_quantity = 0, inv_lowStockThreshold = 10\<rparr>],
     p_totalQuantity = 9, p_isActive = True, p_salesCount = 1\<rparr>"

definition exOrder :: order_doc where
  "exOrder = \<lparr>o_orderNumber = ''ORD-1-ABCD'', o_user = 1,
     o_items = [\<lparr>oi_product = 7, oi_name = ''Mug'', oi_sku = ''MUG-1'', oi_price = 20, oi_quantity = 2\<rparr>,
                \<lparr>oi_product = 8, oi_name = ''Plate'', oi_sku = ''PLATE-1'', oi_price = 15, oi_quantity = 1\<rparr>],
     o_status = Pending,
     o_timeline = [\<lparr>tl_status = ''pending'', tl_description = ''Order placed successfully'',
                    tl_timestamp = 3, tl_updatedBy = None\<rparr>],
     o_updatedAt = 3\<rparr>"

definition exShop :: db where
  "exShop = \<lparr>carts = Map.empty, products = [7 \<mapsto> exProduct, 8 \<mapsto> exPlate], coupons = [],
     orders = [50 \<mapsto> exOrder, 51 \<mapsto> exOrder\<lparr>o_status := Delivered\<rparr>]\<rparr>"

text \<open>
  The same shop with the pending order 52 of user 1: three mugs of SKU MUG-9, a SKU the
  mug no longer holds.
\<close>

definition exOrderGone :: order_doc where
  "exOrderGone = exOrder\<lparr>o_orderNumber := ''ORD-2-WXYZ'',
     o_items := [\<lparr>oi_product = 7, oi_name = ''Mug'', oi_sku = ''MUG-9'', oi_price = 20,
                   oi_quantity = 3\<rparr>]\<rparr>"

definition exShopGone :: db where
  "exShopGone = exShop\<lparr>orders := (orders exShop)(52 \<mapsto> exOrderGone)\<rparr>"

section \<open>Facts on lists\<close>

lemma foldl_add_sum_list:
  "foldl (\<lambda>(s::rat) x. s + f x) a xs = a + sum_list (map f xs)"
  by (induction xs arbitrary: a) (simp_all add: add.assoc)

lemma list_ex_find: "list_ex P xs \<longleftrightarrow> find P xs \<noteq> None"
  by (induction xs) auto

lemma list_ex_inter:
  "list_ex (\<lambda>i. list_ex (\<lambda>a. a = i) as) xs \<longleftrightarrow> set xs \<inter> set as \<noteq> {}"
  by (auto simp: list_ex_iff)

lemma find_snoc_other: "\<not> Q y \<Longrightarrow> find Q (xs @ [y]) = find Q xs"
  by (induction xs) auto

lemma updateFirst_none: "find P xs = None \<Longrightarrow> updateFirst P f xs = xs"
  by (induction xs) (auto split: if_splits)

lemma sum_updateFirst:
  fixes g :: "'a \<Rightarrow> rat"
  shows "find P xs = Some x \<Longrightarrow>
    sum_list (map g (updateFirst P f xs)) = sum_list (map g xs) + (g (f x) - g x)"
  by (induction xs) (auto split: if_splits)

lemma find_updateFirst_same:
  "find P xs = Some x \<Longrightarrow> P (f x) \<Longrightarrow> find P (updateFirst P f xs) = Some (f x)"
  by (induction xs) (auto split: if_splits)

lemma find_updateFirst_other:
  "(\<And>y. P y \<Longrightarrow> Q (f y) = Q y) \<Longrightarrow> (\<And>y. P y \<Longrightarrow> Q y \<Longrightarrow> h (f y) = h y) \<Longrightarrow>
   map_option h (find Q (updateFirst P f xs)) = map_option h (find Q xs)"
  by (induction xs) (auto split: if_splits)

section \<open>Pricing facts\<close>

lemma calculateTotals_items [simp]: "items (calculateTotals c) = items c"
  by (simp add: calculateTotals_def Let_def)

lemma calculateTotals_coupon [simp]: "coupon (calculateTotals c) = coupon c"
  by (simp add: calculateTotals_def Let_def)

lemma calculateTotals_save: "calculateTotals (save now c) = save now c"
  by (simp add: save_def calculateTotals_def Let_def)

lemma save_totalsOk: "totalsOk (save now c)"
  by (simp add: totalsOk_def calculateTotals_save)
     (simp add: save_def calculateTotals_def Let_def foldl_add_sum_list)

subsection \<open>Every handler and every method leaves fresh totals\<close>

lemma cartsOk_putCart: "cartsOk d \<Longrightarrow> cartsOk (putCart user (save now c) d)"
  by (simp add: cartsOk_def putCart_def save_totalsOk)

lemma cartsOk_viaMethod:
  "cartsOk d \<Longrightarrow> (\<And>c c'. m c = Some c' \<Longrightarrow> totalsOk c') \<Longrightarrow> cartsOk (viaMethod user m d)"
  by (auto simp: cartsOk_def viaMethod_def putCart_def split: option.splits)

lemma getCart_ok: "cartsOk d \<Longrightarrow> cartsOk (snd (getCart now user d))"
  by (auto simp: getCart_def Let_def cartsOk_putCart split: option.splits)

lemma addItem_ok: "cartsOk d \<Longrightarrow> cartsOk (snd (addItem now newId user pid sku q vd d))"
  by (auto simp: addItem_def Let_def cartsOk_putCart split: option.splits if_splits)

lemma updateItemQuantity_ok:
  "cartsOk d \<Longrightarrow> cartsOk (snd (updateItemQuantity now user itemId q d))"
  by (auto simp: updateItemQuantity_def Let_def cartsOk_putCart split: option.splits if_splits)

lemma removeItem_ok: "cartsOk d \<Longrightarrow> cartsOk (snd (removeItem now user itemId d))"
  by (auto simp: removeItem_def Let_def cartsOk_putCart split: option.splits)

lemma clearCart_ok: "cartsOk d \<Longrightarrow> cartsOk (snd (clearCart now user d))"
  by (auto simp: clearCart_def Let_def cartsOk_putCart split: option.splits)

lemma applyCoupon_ok: "cartsOk d \<Longrightarrow> cartsOk (snd (applyCoupon now user cd d))"
  by (auto simp: applyCoupon_def Let_def cartsOk_putCart
      split: option.splits validity.splits userCheck.splits discountResult.splits)

lemma removeCoupon_ok: "cartsOk d \<Longrightarrow> cartsOk (snd (removeCoupon now user d))"
  by (auto simp: removeCoupon_def Let_def cartsOk_putCart split: option.splits)

lemma syncCart_ok: "cartsOk d \<Longrightarrow> cartsOk (snd (syncCart now newIds user reqItems d))"
  by (auto simp: syncCart_def Let_def cartsOk_putCart split: option.splits)

lemma methods_ok:
  "totalsOk (cart_addItem now newId pid pdoc sku q vd c)"
  "cart_updateItemQuantity now itemId q c = Some c' \<Longrightarrow> totalsOk c'"
  "totalsOk (cart_removeItem now itemId c)"
  "totalsOk (cart_clearCart now c)"
  "totalsOk (cart_applyCoupon now cd disc ty c)"
  "totalsOk (cart_removeCoupon now c)"
  by (auto simp: cart_addItem_def cart_updateItemQuantity_def cart_removeItem_def
       cart_clearCart_def cart_applyCoupon_def cart_removeCoupon_def Let_def save_totalsOk
       split: option.splits)

lemma reachable_cartsOk: "reachable d \<Longrightarrow> cartsOk d"
proof (induction rule: reachable.induct)
  case (r_init d)
  then show ?case by (simp add: cartsOk_def)
next
  case (r_catalog d ps cps)
  then show ?case by (simp add: cartsOk_def setCatalog_def)
qed (auto intro: getCart_ok addItem_ok updateItemQuantity_ok removeItem_ok clearCart_ok
      applyCoupon_ok removeCoupon_ok syncCart_ok cartsOk_viaMethod methods_ok)

lemma exDbFixed_reachable: "reachable exDbFixed"
  unfolding exDbFixed_def exDbOneItem_def
  by (intro r_applyCoupon r_addItem r_init) (simp add: exDb_def)

text \<open>
  C1. In every state reached from empty carts by the cart handlers (addItem,
  updateItemQuantity, removeItem, clearCart, applyCoupon, removeCoupon, with cart
  creation and syncCart) and by the document methods of the same names, every stored cart
  has \<open>total = subtotal - discount + tax + shipping\<close> with \<open>subtotal\<close> the sum of
  price times quantity over its items, and recomputing the totals changes nothing: no
  operation leaves stale totals.
\<close>

theorem cart_totals_invariant:
  assumes "reachable d" and "carts d user = Some c"
  shows "total c = subtotal c - discount c + tax c + shipping c \<and>
         subtotal c = (\<Sum>item\<leftarrow>items c. ci_price item * ci_quantity item) \<and>
         calculateTotals c = c"
  using reachable_cartsOk [OF assms(1)] assms(2) by (simp add: cartsOk_def totalsOk_def)

theorem cart_totals_invariant_witness:
  "reachable exDbFixed \<and> carts exDbFixed 1 \<noteq> None \<and>
   total (the (carts exDbFixed 1)) =
     subtotal (the (carts exDbFixed 1)) - discount (the (carts exDbFixed 1))
       + tax (the (carts exDbFixed 1)) + shipping (the (carts exDbFixed 1)) \<and>
   subtotal (the (carts exDbFixed 1)) = 20"
proof -
  have n: "carts exDbFixed 1 \<noteq> None" by code_simp
  then have s: "carts exDbFixed 1 = Some (the (carts exDbFixed 1))" by simp
  have v: "subtotal (the (carts exDbFixed 1)) = 20" by code_simp
  from cart_totals_invariant [OF exDbFixed_reachable s]
  have "total (the (carts exDbFixed 1)) =
     subtotal (the (carts exDbFixed 1)) - discount (the (carts exDbFixed 1))
       + tax (the (carts exDbFixed 1)) + shipping (the (carts exDbFixed 1))"
    by (rule conjunct1)
  with exDbFixed_reachable n v show ?thesis by blast
qed

text \<open>
  C3 as stated (shipping 5.99 and total 59.45) fails on the scenario cart: its subtotal 55
  passes the test \<^verbatim>\<open>subtotal > 50\<close>, so shipping is free.
\<close>

theorem scenario_totals_counterexample:
  "\<not> (subtotal (calculateTotals scenarioCart) = 55 \<and>
      discount (calculateTotals scenarioCart) = 11 / 2 \<and>
      tax (calculateTotals scenarioCart) = 99 / 25 \<and>
      shipping (calculateTotals scenarioCart) = 599 / 100 \<and>
      total (calculateTotals scenarioCart) = 5945 / 100)"
  by (simp add: scenarioCart_def calculateTotals_def newCart_def mkItem_def Let_def truthyStr_def)

text \<open>
  C3, amended. For a cart holding two line items priced 20 with quantity 2 and 15 with
  quantity 1 under a 10% percentage coupon, the pricing computation yields subtotal 55,
  discount 5.50, tax (55 - 5.5) x 0.08 = 3.96, shipping 0 (55 is over the free-shipping
  threshold 50) and total 55 - 5.50 + 3.96 + 0 = 53.46.
\<close>

theorem scenario_totals:
  assumes "map (\<lambda>i. (ci_price i, ci_quantity i)) (items c) = [(20, 2), (15, 1)]"
    and "coupon c = \<lparr>cc_code = Some cd, cc_discount = 10, cc_discountType = Percentage\<rparr>"
    and "cd \<noteq> []"
  shows "subtotal (calculateTotals c) = 55 \<and> discount (calculateTotals c) = 11 / 2 \<and>
         tax (calculateTotals c) = 99 / 25 \<and> shipping (calculateTotals c) = 0 \<and>
         total (calculateTotals c) = 2673 / 50"
proof -
  have "(\<Sum>item\<leftarrow>items c. ci_price item * ci_quantity item)
        = (\<Sum>pq\<leftarrow>map (\<lambda>i. (ci_price i, ci_quantity i)) (items c). fst pq * snd pq)"
    by (simp add: comp_def)
  also have "\<dots> = 55" by (simp add: assms(1))
  finally have s: "foldl (\<lambda>sum item. sum + ci_price item * ci_quantity item) 0 (items c) = 55"
    by (simp add: foldl_add_sum_list)
  show ?thesis
    by (simp add: calculateTotals_def Let_def s assms(2,3) truthyStr_def)
qed

theorem scenario_totals_witness:
  "map (\<lambda>i. (ci_price i, ci_quantity i)) (items scenarioCart) = [(20, 2), (15, 1)] \<and>
   coupon scenarioCart =
     \<lparr>cc_code = Some ''SAVE10'', cc_discount = 10, cc_discountType = Percentage\<rparr> \<and>
   subtotal (calculateTotals scenarioCart) = 55 \<and>
   discount (calculateTotals scenarioCart) = 11 / 2 \<and>
   tax (calculateTotals scenarioCart) = 99 / 25 \<and>
   shipping (calculateTotals scenarioCart) = 0 \<and>
   total (calculateTotals scenarioCart) = 2673 / 50"
proof -
  have a: "map (\<lambda>i. (ci_price i, ci_quantity i)) (items scenarioCart) = [(20, 2), (15, 1)]"
    by (simp add: scenarioCart_def mkItem_def)
  have b: "coupon scenarioCart =
     \<lparr>cc_code = Some ''SAVE10'', cc_discount = 10, cc_discountType = Percentage\<rparr>"
    by (simp add: scenarioCart_def)
  from scenario_totals [OF a b] a b show ?thesis by simp
qed




text \<open>
  C9. After \<^verbatim>\<open>clearCart\<close> (the document method and the handler alike), and for every
  recomputed cart with no items and no coupon code, subtotal, discount and tax are 0 and
  shipping and total are the flat fee 5.99: the test \<^verbatim>\<open>subtotal > 50\<close> fails at 0, so
  an empty cart's total is never 0.
\<close>

theorem clearCart_totals:
  "subtotal (cart_clearCart now c) = 0 \<and> discount (cart_clearCart now c) = 0 \<and>
   tax (cart_clearCart now c) = 0 \<and> shipping (cart_clearCart now c) = 599 / 100 \<and>
   total (cart_clearCart now c) = 599 / 100 \<and> total (cart_clearCart now c) \<noteq> 0 \<and>
   (carts d user = Some c \<longrightarrow>
      map_option (\<lambda>c'. (subtotal c', discount c', tax c', shipping c', total c'))
        (carts (snd (clearCart now user d)) user) = Some (0, 0, 0, 599 / 100, 599 / 100)) \<and>
   (items c = [] \<and> cc_code (coupon c) = None \<longrightarrow>
      subtotal (calculateTotals c) = 0 \<and> discount (calculateTotals c) = 0 \<and>
      tax (calculateTotals c) = 0 \<and> shipping (calculateTotals c) = 599 / 100 \<and>
      total (calculateTotals c) = 599 / 100)"
  by (simp add: cart_clearCart_def clearCart_def putCart_def save_def calculateTotals_def
        noCoupon_def truthyStr_def Let_def)

theorem clearCart_totals_witness:
  "items (newCart 0) = [] \<and> cc_code (coupon (newCart 0)) = None \<and>
   total (calculateTotals (newCart 0)) = 599 / 100 \<and>
   total (cart_clearCart 7 (newCart 0)) = 599 / 100 \<and>
   carts exDbFixed 1 \<noteq> None \<and>
   map_option total (carts (snd (clearCart 7 1 exDbFixed)) 1) = Some (599 / 100)"
proof -
  have n: "carts exDbFixed 1 \<noteq> None" by code_simp
  then have s: "carts exDbFixed 1 = Some (the (carts exDbFixed 1))" by simp
  have e: "items (newCart 0) = [] \<and> cc_code (coupon (newCart 0)) = None"
    by (simp add: newCart_def noCoupon_def)
  from clearCart_totals [of 7 "newCart 0" exDbFixed 1] e
  have a: "total (calculateTotals (newCart 0)) = 599 / 100 \<and>
     total (cart_clearCart 7 (newCart 0)) = 599 / 100"
    by blast
  from clearCart_totals [of 7 "the (carts exDbFixed 1)" exDbFixed 1] s
  have "map_option (\<lambda>c'. (subtotal c', discount c', tax c', shipping c', total c'))
        (carts (snd (clearCart 7 1 exDbFixed)) 1) = Some (0, 0, 0, 599 / 100, 599 / 100)"
    by blast
  then have b: "map_option total (carts (snd (clearCart 7 1 exDbFixed)) 1) = Some (599 / 100)"
    by (cases "carts (snd (clearCart 7 1 exDbFixed)) 1") auto
  from n e a b show ?thesis by blast
qed

section \<open>Coupon evaluator\<close>

lemma round2_near: "\<bar>round2 x - x\<bar> \<le> 1 / 200"
proof -
  define n where "n = (of_int \<lfloor>x * 100 + 1 / 2\<rfloor> :: rat)"
  have a: "n \<le> x * 100 + 1 / 2" "x * 100 + 1 / 2 < n + 1"
    unfolding n_def by linarith+
  have r: "round2 x = n / 100"
    by (simp add: round2_def mathRound_def n_def)
  show ?thesis unfolding r using a by linarith
qed

lemma round2_cents: "round2 (of_int k / 100) = of_int k / 100"
proof -
  have "\<lfloor>(of_int k :: rat) + 1 / 2\<rfloor> = k" by linarith
  then show ?thesis by (simp add: round2_def mathRound_def)
qed

text \<open>
  C5 as stated fails twice. A coupon scoped to products whose allow-list is empty is
  applicable although no given product is in the allow-list: the scope test is guarded by
  \<^verbatim>\<open>applicableProducts.length > 0\<close>. And the discount returned is rounded to cents:
  10% of 10.01 is reported as 1, not 1.001.
\<close>

theorem calculateDiscount_counterexample:
  "applyTo scopedCoupon = Products \<and> set [7] \<inter> set (applicableProducts scopedCoupon) = {} \<and>
   calculateDiscount scopedCoupon 100 [7] [] = Applicable 10 90 \<and>
   calculateDiscount (freshCoupon 0 ''SAVE10'' Percentage 10 1000) (1001 / 100) [] []
     = Applicable 1 (9009 / 1000) \<and>
   (1001 / 100 :: rat) * 10 / 100 \<noteq> 1"
  by code_simp

text \<open>
  C5, amended. \<^verbatim>\<open>calculateDiscount\<close> returns not-applicable when the scope is
  \<open>products\<close>, the allow-list is not empty and no given product reference is in it
  (symmetrically for \<open>categories\<close>), and when the subtotal is below the minimum purchase.
  Otherwise it returns, rounded to two decimals with \<^verbatim>\<open>Math.round\<close> (within half a
  cent, exact on whole cents), subtotal x discountValue / 100 capped at maximumDiscount
  when that is set and not 0 (percentage type), or discountValue uncapped (fixed type);
  the final total it reports is the subtotal minus the unrounded discount.
\<close>

theorem calculateDiscount_cases:
  "(applyTo c = Products \<and> applicableProducts c \<noteq> [] \<and>
      set productIds \<inter> set (applicableProducts c) = {} \<longrightarrow>
      calculateDiscount c s productIds categoryIds =
        NotApplicable (Text ''Coupon not applicable to these products'')) \<and>
   (applyTo c = Categories \<and> applicableCategories c \<noteq> [] \<and>
      set categoryIds \<inter> set (applicableCategories c) = {} \<longrightarrow>
      calculateDiscount c s productIds categoryIds =
        NotApplicable (Text ''Coupon not applicable to these categories'')) \<and>
   (s < minimumPurchase c \<longrightarrow>
      (\<exists>reason. calculateDiscount c s productIds categoryIds = NotApplicable reason)) \<and>
   (\<not> (applyTo c = Products \<and> applicableProducts c \<noteq> [] \<and>
         set productIds \<inter> set (applicableProducts c) = {}) \<and>
    \<not> (applyTo c = Categories \<and> applicableCategories c \<noteq> [] \<and>
         set categoryIds \<inter> set (applicableCategories c) = {}) \<and>
    minimumPurchase c \<le> s \<longrightarrow>
      calculateDiscount c s productIds categoryIds =
        (let d = (if discountType c = Percentage then
                    (case maximumDiscount c of
                       Some m \<Rightarrow> if m \<noteq> 0 then min (s * discountValue c / 100) m
                                 else s * discountValue c / 100
                     | None \<Rightarrow> s * discountValue c / 100)
                  else discountValue c)
         in Applicable (round2 d) (s - d))) \<and>
   (\<forall>d. \<bar>round2 d - d\<bar> \<le> 1 / 200) \<and> (\<forall>k. round2 (of_int k / 100) = of_int k / 100)"
proof (intro conjI allI)
  show "\<bar>round2 d - d\<bar> \<le> 1 / 200" for d by (rule round2_near)
  show "round2 (rat_of_int k / 100) = rat_of_int k / 100" for k by (rule round2_cents)
qed (auto simp: calculateDiscount_def Let_def list_ex_inter truthyNum_def split: option.splits)

theorem calculateDiscount_cases_witness:
  "applyTo mugCoupon = Products \<and> applicableProducts mugCoupon \<noteq> [] \<and>
   set [8] \<inter> set (applicableProducts mugCoupon) = {} \<and>
   calculateDiscount mugCoupon 55 [8] [] =
     NotApplicable (Text ''Coupon not applicable to these products'') \<and>
   minimumPurchase mugCoupon \<le> 55 \<and>
   calculateDiscount mugCoupon 55 [7, 8] [] = Applicable 4 51"
proof -
  have h1: "applyTo mugCoupon = Products \<and> applicableProducts mugCoupon \<noteq> [] \<and>
     set [8] \<inter> set (applicableProducts mugCoupon) = {}"
    by code_simp
  have h2: "\<not> (applyTo mugCoupon = Products \<and> applicableProducts mugCoupon \<noteq> [] \<and>
         set [7, 8] \<inter> set (applicableProducts mugCoupon) = {}) \<and>
    \<not> (applyTo mugCoupon = Categories \<and> applicableCategories mugCoupon \<noteq> [] \<and>
         set [] \<inter> set (applicableCategories mugCoupon) = {}) \<and>
    minimumPurchase mugCoupon \<le> 55"
    by code_simp
  have v: "(let d = (if discountType mugCoupon = Percentage then
                    (case maximumDiscount mugCoupon of
                       Some m \<Rightarrow> if m \<noteq> 0 then min (55 * discountValue mugCoupon / 100) m
                                 else 55 * discountValue mugCoupon / 100
                     | None \<Rightarrow> 55 * discountValue mugCoupon / 100)
                  else discountValue mugCoupon)
         in Applicable (round2 d) (55 - d)) = Applicable 4 51"
    by code_simp
  from calculateDiscount_cases [where c = mugCoupon and productIds = "[8]" and s = 55 and categoryIds = "[]"] h1
  have a: "calculateDiscount mugCoupon 55 [8] [] =
     NotApplicable (Text ''Coupon not applicable to these products'')"
    by blast
  from calculateDiscount_cases [where c = mugCoupon and productIds = "[7, 8]" and s = 55 and categoryIds = "[]"] h2 v
  have b: "calculateDiscount mugCoupon 55 [7, 8] [] = Applicable 4 51"
    by simp
  from h1 h2 a b show ?thesis by blast
qed


text \<open>
  C7. \<^verbatim>\<open>recordUsage\<close> raises \<open>usageCount\<close> by 1 and upserts the user's entry: the
  first entry of that user has its count raised by 1, or an entry with count 1 is appended
  when there is none; the counts of other users stay. The per-user counts then add up to
  1 more than before, so \<open>usageCount = sum of counts\<close> is preserved; it holds for a
  fresh coupon.
\<close>

theorem recordUsage_counts:
  "usageCount (recordUsage now u c) = usageCount c + 1 \<and>
   (case find (\<lambda>e. ub_user e = u) (usedBy c) of
      Some e \<Rightarrow>
        usedBy (recordUsage now u c) =
          updateFirst (\<lambda>e. ub_user e = u)
            (\<lambda>e. e\<lparr>ub_count := ub_count e + 1, ub_lastUsed := now\<rparr>) (usedBy c) \<and>
        find (\<lambda>e. ub_user e = u) (usedBy (recordUsage now u c)) =
          Some (e\<lparr>ub_count := ub_count e + 1, ub_lastUsed := now\<rparr>)
    | None \<Rightarrow>
        usedBy (recordUsage now u c) =
          usedBy c @ [\<lparr>ub_user = u, ub_count = 1, ub_lastUsed = now\<rparr>]) \<and>
   (\<forall>v. v \<noteq> u \<longrightarrow>
      map_option ub_count (find (\<lambda>e. ub_user e = v) (usedBy (recordUsage now u c))) =
      map_option ub_count (find (\<lambda>e. ub_user e = v) (usedBy c))) \<and>
   sum_list (map ub_count (usedBy (recordUsage now u c))) =
     sum_list (map ub_count (usedBy c)) + 1 \<and>
   (usageConsistent c \<longrightarrow> usageConsistent (recordUsage now u c)) \<and>
   usageConsistent (freshCoupon t0 cd ty val t1)"
proof -
  let ?P = "\<lambda>e. ub_user e = u"
  let ?f = "\<lambda>e. e\<lparr>ub_count := ub_count e + 1, ub_lastUsed := now\<rparr>"
  have other: "map_option ub_count (find (\<lambda>e. ub_user e = v) (usedBy (recordUsage now u c))) =
      map_option ub_count (find (\<lambda>e. ub_user e = v) (usedBy c))" if "v \<noteq> u" for v
  proof (cases "find ?P (usedBy c)")
    case None
    then have "find (\<lambda>e. ub_user e = v) (usedBy c @ [\<lparr>ub_user = u, ub_count = 1, ub_lastUsed = now\<rparr>])
      = find (\<lambda>e. ub_user e = v) (usedBy c)"
      using that by (intro find_snoc_other) simp
    with None show ?thesis by (simp add: recordUsage_def Let_def list_ex_find)
  next
    case (Some e)
    have "map_option ub_count (find (\<lambda>e. ub_user e = v) (updateFirst ?P ?f (usedBy c))) =
      map_option ub_count (find (\<lambda>e. ub_user e = v) (usedBy c))"
      using that by (intro find_updateFirst_other) auto
    with Some show ?thesis by (simp add: recordUsage_def Let_def list_ex_find)
  qed
  have total: "sum_list (map ub_count (usedBy (recordUsage now u c))) =
     sum_list (map ub_count (usedBy c)) + 1"
  proof (cases "find ?P (usedBy c)")
    case None
    then show ?thesis by (simp add: recordUsage_def Let_def list_ex_find)
  next
    case (Some e)
    from sum_updateFirst [OF Some, of ub_count ?f] Some show ?thesis
      by (simp add: recordUsage_def Let_def list_ex_find)
  qed
  have cnt: "usageCount (recordUsage now u c) = usageCount c + 1"
    by (simp add: recordUsage_def Let_def)
  have shape: "(case find ?P (usedBy c) of
      Some e \<Rightarrow>
        usedBy (recordUsage now u c) = updateFirst ?P ?f (usedBy c) \<and>
        find ?P (usedBy (recordUsage now u c)) = Some (?f e)
    | None \<Rightarrow>
        usedBy (recordUsage now u c) =
          usedBy c @ [\<lparr>ub_user = u, ub_count = 1, ub_lastUsed = now\<rparr>])"
  proof (cases "find ?P (usedBy c)")
    case None
    then show ?thesis by (simp add: recordUsage_def Let_def list_ex_find)
  next
    case (Some e)
    then have "ub_user e = u" by (auto simp: find_Some_iff)
    with Some find_updateFirst_same [OF Some, of ?f] show ?thesis
      by (simp add: recordUsage_def Let_def list_ex_find)
  qed
  have fresh: "usageConsistent (freshCoupon t0 cd ty val t1)"
    by (simp add: usageConsistent_def freshCoupon_def)
  from cnt shape other total fresh show ?thesis
    by (simp add: usageConsistent_def)
qed

theorem recordUsage_counts_witness:
  "usageConsistent (recordUsage 10 4 (freshCoupon 0 ''SAVE10'' Percentage 10 1000)) \<and>
   usageConsistent (recordUsage 20 4 (recordUsage 10 4 (freshCoupon 0 ''SAVE10'' Percentage 10 1000))) \<and>
   usageCount (recordUsage 20 4 (recordUsage 10 4 (freshCoupon 0 ''SAVE10'' Percentage 10 1000))) = 2 \<and>
   map ub_count (usedBy (recordUsage 20 4 (recordUsage 10 4
      (freshCoupon 0 ''SAVE10'' Percentage 10 1000)))) = [2]"
proof -
  let ?c0 = "freshCoupon 0 ''SAVE10'' Percentage 10 1000"
  from recordUsage_counts [of 10 4 ?c0 0 "''SAVE10''" Percentage 10 1000]
  have a: "usageConsistent (recordUsage 10 4 ?c0)" by blast
  from recordUsage_counts [of 20 4 "recordUsage 10 4 ?c0"] a
  have b: "usageConsistent (recordUsage 20 4 (recordUsage 10 4 ?c0))" by blast
  have c: "usageCount (recordUsage 20 4 (recordUsage 10 4 ?c0)) = 2 \<and>
    map ub_count (usedBy (recordUsage 20 4 (recordUsage 10 4 ?c0))) = [2]"
    by code_simp
  from a b c show ?thesis by blast
qed

text \<open>
  C10. A stored total limit of 0 is read as no total limit by \<^verbatim>\<open>isValid\<close>: the
  result is the one for a coupon without the limit, so an active coupon inside its window
  is valid whatever its \<open>usageCount\<close>. A per-user limit of 0 is read as no limit by
  \<^verbatim>\<open>canUserUse\<close>. The schema's \<^verbatim>\<open>min: 0\<close> validators accept 0 for both.
\<close>

theorem zero_limit_unlimited:
  "(ul_total (usageLimit c) = Some 0 \<longrightarrow>
      isValid now c = isValid now (c\<lparr>usageLimit := (usageLimit c)\<lparr>ul_total := None\<rparr>\<rparr>)) \<and>
   (ul_total (usageLimit c) = Some 0 \<and> isActive c \<and> startDate c \<le> now \<and> now \<le> endDate c \<longrightarrow>
      isValid now c = Valid) \<and>
   (ul_perUser (usageLimit c) = Some 0 \<longrightarrow>
      canUserUse u c = CanUse \<and>
      canUserUse u c = canUserUse u (c\<lparr>usageLimit := (usageLimit c)\<lparr>ul_perUser := None\<rparr>\<rparr>)) \<and>
   usageLimit_accepts \<lparr>ul_total = Some 0, ul_perUser = Some 0\<rparr>"
  by (simp add: isValid_def canUserUse_def truthyNum_def usageLimit_accepts_def minValidator_def)

theorem zero_limit_unlimited_witness:
  "ul_total (usageLimit zeroLimitCoupon) = Some 0 \<and> ul_perUser (usageLimit zeroLimitCoupon) = Some 0 \<and>
   isActive zeroLimitCoupon \<and> startDate zeroLimitCoupon \<le> 500 \<and> 500 \<le> endDate zeroLimitCoupon \<and>
   usageCount zeroLimitCoupon \<ge> 0 \<and> usageLimit_accepts (usageLimit zeroLimitCoupon) \<and>
   isValid 500 zeroLimitCoupon = Valid \<and> canUserUse 4 zeroLimitCoupon = CanUse"
proof -
  have h: "ul_total (usageLimit zeroLimitCoupon) = Some 0 \<and>
     ul_perUser (usageLimit zeroLimitCoupon) = Some 0 \<and>
     isActive zeroLimitCoupon \<and> startDate zeroLimitCoupon \<le> 500 \<and> 500 \<le> endDate zeroLimitCoupon \<and>
     usageCount zeroLimitCoupon \<ge> 0 \<and>
     usageLimit zeroLimitCoupon = \<lparr>ul_total = Some 0, ul_perUser = Some 0\<rparr>"
    by (simp add: zeroLimitCoupon_def freshCoupon_def)
  from zero_limit_unlimited [of zeroLimitCoupon 500 4] h
  have "isValid 500 zeroLimitCoupon = Valid \<and> canUserUse 4 zeroLimitCoupon = CanUse \<and>
     usageLimit_accepts \<lparr>ul_total = Some 0, ul_perUser = Some 0\<rparr>"
    by blast
  with h show ?thesis by simp
qed

section \<open>Applying a coupon to a cart\<close>

lemma applyCoupon_found:
  assumes "carts d user = Some c" and "items c \<noteq> []"
    and "find (\<lambda>cp. code cp = castCode (toUpperCase codeReq)) (coupons d) = Some cp"
  shows "applyCoupon now user codeReq d =
    (case isValid now cp of
       Invalid reason \<Rightarrow> (Failure 400 (Text reason), d)
     | Valid \<Rightarrow>
         (case canUserUse user cp of
            CannotUse reason \<Rightarrow> (Failure 400 (Text reason), d)
          | CanUse \<Rightarrow>
              (case calculateDiscount cp (subtotal c) (map ci_product (items c)) [] of
                 NotApplicable reason \<Rightarrow> (Failure 400 reason, d)
               | Applicable disc finalTotal \<Rightarrow>
                   (Success ''Coupon applied successfully''
                      (CouponData (save now (c\<lparr>coupon := \<lparr>cc_code = Some (code cp),
                           cc_discount = discountValue cp,
                           cc_discountType = discountType cp\<rparr>\<rparr>)) disc),
                    putCart user (save now (c\<lparr>coupon := \<lparr>cc_code = Some (code cp),
                           cc_discount = discountValue cp,
                           cc_discountType = discountType cp\<rparr>\<rparr>)) d))))"
  using assms
  by (simp add: applyCoupon_def Let_def
       split: validity.splits userCheck.splits discountResult.splits)

lemma isValid_iff:
  "isValid now cp = Valid \<longleftrightarrow>
     isActive cp \<and> startDate cp \<le> now \<and> now \<le> endDate cp \<and>
     (\<forall>t. ul_total (usageLimit cp) = Some t \<and> t \<noteq> 0 \<longrightarrow> usageCount cp < t)"
  by (cases "ul_total (usageLimit cp)") (auto simp: isValid_def truthyNum_def)

lemma canUserUse_iff:
  "canUserUse user cp = CanUse \<longleftrightarrow>
     (\<forall>k u. ul_perUser (usageLimit cp) = Some k \<and> k \<noteq> 0 \<and>
            find (\<lambda>e. ub_user e = user) (usedBy cp) = Some u \<longrightarrow> ub_count u < k)"
  by (cases "ul_perUser (usageLimit cp)"; cases "find (\<lambda>e. ub_user e = user) (usedBy cp)")
     (auto simp: canUserUse_def truthyNum_def Let_def)

lemma isValid_refusals:
  "(\<not> isActive cp \<longrightarrow> isValid now cp = Invalid ''Coupon is inactive'') \<and>
   (isActive cp \<and> now < startDate cp \<longrightarrow> isValid now cp = Invalid ''Coupon not yet active'') \<and>
   (isActive cp \<and> startDate cp \<le> now \<and> endDate cp < now \<longrightarrow>
      isValid now cp = Invalid ''Coupon has expired'') \<and>
   (isActive cp \<and> startDate cp \<le> now \<and> now \<le> endDate cp \<and>
    (\<exists>t. ul_total (usageLimit cp) = Some t \<and> t \<noteq> 0 \<and> t \<le> usageCount cp) \<longrightarrow>
      isValid now cp = Invalid ''Usage limit reached'')"
  by (auto simp: isValid_def truthyNum_def)

lemma canUserUse_refusal:
  "ul_perUser (usageLimit cp) = Some k \<Longrightarrow> k \<noteq> 0 \<Longrightarrow>
   find (\<lambda>e. ub_user e = user) (usedBy cp) = Some u \<Longrightarrow> k \<le> ub_count u \<Longrightarrow>
   canUserUse user cp = CannotUse ''Per-user limit reached''"
  by (simp add: canUserUse_def truthyNum_def Let_def)

lemma calculateDiscount_handler:
  "calculateDiscount cp s pids [] =
    (if applyTo cp = Products \<and> applicableProducts cp \<noteq> [] \<and>
        set pids \<inter> set (applicableProducts cp) = {}
     then NotApplicable (Text ''Coupon not applicable to these products'')
     else if applyTo cp = Categories \<and> applicableCategories cp \<noteq> []
     then NotApplicable (Text ''Coupon not applicable to these categories'')
     else if s < minimumPurchase cp then NotApplicable (MinimumPurchase (minimumPurchase cp))
     else (let d0 = (if discountType cp = Percentage then
                    (case maximumDiscount cp of
                       Some m \<Rightarrow> if m \<noteq> 0 then min (s * discountValue cp / 100) m
                                 else s * discountValue cp / 100
                     | None \<Rightarrow> s * discountValue cp / 100)
                  else discountValue cp)
           in Applicable (round2 d0) (s - d0)))"
  by (auto simp: calculateDiscount_def Let_def list_ex_inter truthyNum_def split: option.splits)

text \<open>
  C8. \<^verbatim>\<open>applyCoupon\<close> on a non-empty cart and a known code (looked up in upper case,
  trimmed) runs \<^verbatim>\<open>isValid\<close>, then \<^verbatim>\<open>canUserUse\<close>, then \<^verbatim>\<open>calculateDiscount\<close>. The
  first check that fails decides the reply, a 400 with that check's reason, and the
  database is returned as it was: an inactive coupon, a coupon before its start or after
  its end, a total usage limit that \<open>usageCount\<close> has reached, a per-user limit that the
  user's recorded count has reached, a product or category scope the cart does not meet,
  a subtotal below the minimum purchase, in this order. \<^verbatim>\<open>isValid\<close> and
  \<^verbatim>\<open>canUserUse\<close> pass exactly when none of their refusals applies. When all three pass,
  the cart stores the coupon's code, discount value and discount type, its totals are
  recomputed, it is written back, and the reply carries the rounded discount. Every
  failure reply of the handler leaves the database unchanged.
\<close>

theorem applyCoupon_checks:
  "(\<forall>st m. fst (applyCoupon now user codeReq d) = Failure st m \<longrightarrow>
      snd (applyCoupon now user codeReq d) = d) \<and>
   (isValid now cp = Valid \<longleftrightarrow>
      isActive cp \<and> startDate cp \<le> now \<and> now \<le> endDate cp \<and>
      (\<forall>t. ul_total (usageLimit cp) = Some t \<and> t \<noteq> 0 \<longrightarrow> usageCount cp < t)) \<and>
   (canUserUse user cp = CanUse \<longleftrightarrow>
      (\<forall>k u. ul_perUser (usageLimit cp) = Some k \<and> k \<noteq> 0 \<and>
             find (\<lambda>e. ub_user e = user) (usedBy cp) = Some u \<longrightarrow> ub_count u < k)) \<and>
   (carts d user = Some c \<and> items c \<noteq> [] \<and>
    find (\<lambda>cp. code cp = castCode (toUpperCase codeReq)) (coupons d) = Some cp \<longrightarrow>
      (\<forall>r. isValid now cp = Invalid r \<longrightarrow>
         applyCoupon now user codeReq d = (Failure 400 (Text r), d)) \<and>
      (\<forall>r. isValid now cp = Valid \<and> canUserUse user cp = CannotUse r \<longrightarrow>
         applyCoupon now user codeReq d = (Failure 400 (Text r), d)) \<and>
      (\<forall>m. isValid now cp = Valid \<and> canUserUse user cp = CanUse \<and>
         calculateDiscount cp (subtotal c) (map ci_product (items c)) [] = NotApplicable m \<longrightarrow>
         applyCoupon now user codeReq d = (Failure 400 m, d)) \<and>
      (\<forall>disc fin. isValid now cp = Valid \<and> canUserUse user cp = CanUse \<and>
         calculateDiscount cp (subtotal c) (map ci_product (items c)) [] = Applicable disc fin \<longrightarrow>
         (let c' = (calculateTotals
                      (c\<lparr>coupon := \<lparr>cc_code = Some (code cp), cc_discount = discountValue cp,
                                     cc_discountType = discountType cp\<rparr>\<rparr>))\<lparr>lastUpdated := now\<rparr>
          in applyCoupon now user codeReq d =
               (Success ''Coupon applied successfully'' (CouponData c' disc),
                d\<lparr>carts := (carts d)(user \<mapsto> c')\<rparr>) \<and>
             items c' = items c \<and>
             coupon c' = \<lparr>cc_code = Some (code cp), cc_discount = discountValue cp,
                          cc_discountType = discountType cp\<rparr> \<and>
             totalsOk c')) \<and>
      (\<not> isActive cp \<longrightarrow>
         applyCoupon now user codeReq d = (Failure 400 (Text ''Coupon is inactive''), d)) \<and>
      (isActive cp \<and> now < startDate cp \<longrightarrow>
         applyCoupon now user codeReq d = (Failure 400 (Text ''Coupon not yet active''), d)) \<and>
      (isActive cp \<and> startDate cp \<le> now \<and> endDate cp < now \<longrightarrow>
         applyCoupon now user codeReq d = (Failure 400 (Text ''Coupon has expired''), d)) \<and>
      (isActive cp \<and> startDate cp \<le> now \<and> now \<le> endDate cp \<and>
       (\<exists>t. ul_total (usageLimit cp) = Some t \<and> t \<noteq> 0 \<and> t \<le> usageCount cp) \<longrightarrow>
         applyCoupon now user codeReq d = (Failure 400 (Text ''Usage limit reached''), d)) \<and>
      (isValid now cp = Valid \<and>
       (\<exists>k u. ul_perUser (usageLimit cp) = Some k \<and> k \<noteq> 0 \<and>
              find (\<lambda>e. ub_user e = user) (usedBy cp) = Some u \<and> k \<le> ub_count u) \<longrightarrow>
         applyCoupon now user codeReq d = (Failure 400 (Text ''Per-user limit reached''), d)) \<and>
      (isValid now cp = Valid \<and> canUserUse user cp = CanUse \<and>
       applyTo cp = Products \<and> applicableProducts cp \<noteq> [] \<and>
       set (map ci_product (items c)) \<inter> set (applicableProducts cp) = {} \<longrightarrow>
         applyCoupon now user codeReq d =
           (Failure 400 (Text ''Coupon not applicable to these products''), d)) \<and>
      (isValid now cp = Valid \<and> canUserUse user cp = CanUse \<and>
       applyTo cp = Categories \<and> applicableCategories cp \<noteq> [] \<longrightarrow>
         applyCoupon now user codeReq d =
           (Failure 400 (Text ''Coupon not applicable to these categories''), d)) \<and>
      (isValid now cp = Valid \<and> canUserUse user cp = CanUse \<and>
       \<not> (applyTo cp = Products \<and> applicableProducts cp \<noteq> [] \<and>
          set (map ci_product (items c)) \<inter> set (applicableProducts cp) = {}) \<and>
       \<not> (applyTo cp = Categories \<and> applicableCategories cp \<noteq> []) \<and>
       subtotal c < minimumPurchase cp \<longrightarrow>
         applyCoupon now user codeReq d =
           (Failure 400 (MinimumPurchase (minimumPurchase cp)), d)) \<and>
      (isValid now cp = Valid \<and> canUserUse user cp = CanUse \<and>
       \<not> (applyTo cp = Products \<and> applicableProducts cp \<noteq> [] \<and>
          set (map ci_product (items c)) \<inter> set (applicableProducts cp) = {}) \<and>
       \<not> (applyTo cp = Categories \<and> applicableCategories cp \<noteq> []) \<and>
       minimumPurchase cp \<le> subtotal c \<longrightarrow>
         fst (applyCoupon now user codeReq d) =
            Success ''Coupon applied successfully''
              (CouponData (save now (c\<lparr>coupon := \<lparr>cc_code = Some (code cp),
                   cc_discount = discountValue cp, cc_discountType = discountType cp\<rparr>\<rparr>))
                 (round2 (if discountType cp = Percentage then
                    (case maximumDiscount cp of
                       Some m \<Rightarrow> if m \<noteq> 0 then min (subtotal c * discountValue cp / 100) m
                                 else subtotal c * discountValue cp / 100
                     | None \<Rightarrow> subtotal c * discountValue cp / 100)
                  else discountValue cp))) \<and>
         carts (snd (applyCoupon now user codeReq d)) user =
           Some (save now (c\<lparr>coupon := \<lparr>cc_code = Some (code cp),
                   cc_discount = discountValue cp, cc_discountType = discountType cp\<rparr>\<rparr>))))"
proof (intro conjI)
  show "\<forall>st m. fst (applyCoupon now user codeReq d) = Failure st m \<longrightarrow>
      snd (applyCoupon now user codeReq d) = d"
    by (auto simp: applyCoupon_def Let_def
        split: option.splits if_splits validity.splits userCheck.splits discountResult.splits)
  show "isValid now cp = Valid \<longleftrightarrow>
      isActive cp \<and> startDate cp \<le> now \<and> now \<le> endDate cp \<and>
      (\<forall>t. ul_total (usageLimit cp) = Some t \<and> t \<noteq> 0 \<longrightarrow> usageCount cp < t)"
    by (rule isValid_iff)
  show "canUserUse user cp = CanUse \<longleftrightarrow>
      (\<forall>k u. ul_perUser (usageLimit cp) = Some k \<and> k \<noteq> 0 \<and>
             find (\<lambda>e. ub_user e = user) (usedBy cp) = Some u \<longrightarrow> ub_count u < k)"
    by (rule canUserUse_iff)
  show "carts d user = Some c \<and> items c \<noteq> [] \<and>
    find (\<lambda>cp. code cp = castCode (toUpperCase codeReq)) (coupons d) = Some cp \<longrightarrow>
      (\<forall>r. isValid now cp = Invalid r \<longrightarrow>
         applyCoupon now user codeReq d = (Failure 400 (Text r), d)) \<and>
      (\<forall>r. isValid now cp = Valid \<and> canUserUse user cp = CannotUse r \<longrightarrow>
         applyCoupon now user codeReq d = (Failure 400 (Text r), d)) \<and>
      (\<forall>m. isValid now cp = Valid \<and> canUserUse user cp = CanUse \<and>
         calculateDiscount cp (subtotal c) (map ci_product (items c)) [] = NotApplicable m \<longrightarrow>
         applyCoupon now user codeReq d = (Failure 400 m, d)) \<and>
      (\<forall>disc fin. isValid now cp = Valid \<and> canUserUse user cp = CanUse \<and>
         calculateDiscount cp (subtotal c) (map ci_product (items c)) [] = Applicable disc fin \<longrightarrow>
         (let c' = (calculateTotals
                      (c\<lparr>coupon := \<lparr>cc_code = Some (code cp), cc_discount = discountValue cp,
                                     cc_discountType = discountType cp\<rparr>\<rparr>))\<lparr>lastUpdated := now\<rparr>
          in applyCoupon now user codeReq d =
               (Success ''Coupon applied successfully'' (CouponData c' disc),
                d\<lparr>carts := (carts d)(user \<mapsto> c')\<rparr>) \<and>
             items c' = items c \<and>
             coupon c' = \<lparr>cc_code = Some (code cp), cc_discount = discountValue cp,
                          cc_discountType = discountType cp\<rparr> \<and>
             totalsOk c')) \<and>
      (\<not> isActive cp \<longrightarrow>
         applyCoupon now user codeReq d = (Failure 400 (Text ''Coupon is inactive''), d)) \<and>
      (isActive cp \<and> now < startDate cp \<longrightarrow>
         applyCoupon now user codeReq d = (Failure 400 (Text ''Coupon not yet active''), d)) \<and>
      (isActive cp \<and> startDate cp \<le> now \<and> endDate cp < now \<longrightarrow>
         applyCoupon now user codeReq d = (Failure 400 (Text ''Coupon has expired''), d)) \<and>
      (isActive cp \<and> startDate cp \<le> now \<and> now \<le> endDate cp \<and>
       (\<exists>t. ul_total (usageLimit cp) = Some t \<and> t \<noteq> 0 \<and> t \<le> usageCount cp) \<longrightarrow>
         applyCoupon now user codeReq d = (Failure 400 (Text ''Usage limit reached''), d)) \<and>
      (isValid now cp = Valid \<and>
       (\<exists>k u. ul_perUser (usageLimit cp) = Some k \<and> k \<noteq> 0 \<and>
              find (\<lambda>e. ub_user e = user) (usedBy cp) = Some u \<and> k \<le> ub_count u) \<longrightarrow>
         applyCoupon now user codeReq d = (Failure 400 (Text ''Per-user limit reached''), d)) \<and>
      (isValid now cp = Valid \<and> canUserUse user cp = CanUse \<and>
       applyTo cp = Products \<and> applicableProducts cp \<noteq> [] \<and>
       set (map ci_product (items c)) \<inter> set (applicableProducts cp) = {} \<longrightarrow>
         applyCoupon now user codeReq d =
           (Failure 400 (Text ''Coupon not applicable to these products''), d)) \<and>
      (isValid now cp = Valid \<and> canUserUse user cp = CanUse \<and>
       applyTo cp = Categories \<and> applicableCategories cp \<noteq> [] \<longrightarrow>
         applyCoupon now user codeReq d =
           (Failure 400 (Text ''Coupon not applicable to these categories''), d)) \<and>
      (isValid now cp = Valid \<and> canUserUse user cp = CanUse \<and>
       \<not> (applyTo cp = Products \<and> applicableProducts cp \<noteq> [] \<and>
          set (map ci_product (items c)) \<inter> set (applicableProducts cp) = {}) \<and>
       \<not> (applyTo cp = Categories \<and> applicableCategories cp \<noteq> []) \<and>
       subtotal c < minimumPurchase cp \<longrightarrow>
         applyCoupon now user codeReq d =
           (Failure 400 (MinimumPurchase (minimumPurchase cp)), d)) \<and>
      (isValid now cp = Valid \<and> canUserUse user cp = CanUse \<and>
       \<not> (applyTo cp = Products \<and> applicableProducts cp \<noteq> [] \<and>
          set (map ci_product (items c)) \<inter> set (applicableProducts cp) = {}) \<and>
       \<not> (applyTo cp = Categories \<and> applicableCategories cp \<noteq> []) \<and>
       minimumPurchase cp \<le> subtotal c \<longrightarrow>
         fst (applyCoupon now user codeReq d) =
            Success ''Coupon applied successfully''
              (CouponData (save now (c\<lparr>coupon := \<lparr>cc_code = Some (code cp),
                   cc_discount = discountValue cp, cc_discountType = discountType cp\<rparr>\<rparr>))
                 (round2 (if discountType cp = Percentage then
                    (case maximumDiscount cp of
                       Some m \<Rightarrow> if m \<noteq> 0 then min (subtotal c * discountValue cp / 100) m
                                 else subtotal c * discountValue cp / 100
                     | None \<Rightarrow> subtotal c * discountValue cp / 100)
                  else discountValue cp))) \<and>
         carts (snd (applyCoupon now user codeReq d)) user =
           Some (save now (c\<lparr>coupon := \<lparr>cc_code = Some (code cp),
                   cc_discount = discountValue cp, cc_discountType = discountType cp\<rparr>\<rparr>)))"
  proof (intro impI)
    assume a: "carts d user = Some c \<and> items c \<noteq> [] \<and>
      find (\<lambda>cp. code cp = castCode (toUpperCase codeReq)) (coupons d) = Some cp"
    then have run: "applyCoupon now user codeReq d =
      (case isValid now cp of
       Invalid reason \<Rightarrow> (Failure 400 (Text reason), d)
     | Valid \<Rightarrow>
         (case canUserUse user cp of
            CannotUse reason \<Rightarrow> (Failure 400 (Text reason), d)
          | CanUse \<Rightarrow>
              (case calculateDiscount cp (subtotal c) (map ci_product (items c)) [] of
                 NotApplicable reason \<Rightarrow> (Failure 400 reason, d)
               | Applicable disc finalTotal \<Rightarrow>
                   (Success ''Coupon applied successfully''
                      (CouponData (save now (c\<lparr>coupon := \<lparr>cc_code = Some (code cp),
                           cc_discount = discountValue cp,
                           cc_discountType = discountType cp\<rparr>\<rparr>)) disc),
                    putCart user (save now (c\<lparr>coupon := \<lparr>cc_code = Some (code cp),
                           cc_discount = discountValue cp,
                           cc_discountType = discountType cp\<rparr>\<rparr>)) d))))"
      by (intro applyCoupon_found) simp_all
    have ok: "totalsOk ((calculateTotals x)\<lparr>lastUpdated := now\<rparr>)" for x
      using save_totalsOk [of now x] by (simp add: save_def)
    note cd = calculateDiscount_handler [of cp "subtotal c" "map ci_product (items c)"]
    have o1: "\<forall>r. isValid now cp = Invalid r \<longrightarrow>
         applyCoupon now user codeReq d = (Failure 400 (Text r), d)"
      by (simp add: run)
    have o2: "\<forall>r. isValid now cp = Valid \<and> canUserUse user cp = CannotUse r \<longrightarrow>
         applyCoupon now user codeReq d = (Failure 400 (Text r), d)"
      by (simp add: run)
    have o3: "\<forall>m. isValid now cp = Valid \<and> canUserUse user cp = CanUse \<and>
         calculateDiscount cp (subtotal c) (map ci_product (items c)) [] = NotApplicable m \<longrightarrow>
         applyCoupon now user codeReq d = (Failure 400 m, d)"
      by (simp add: run)
    have o4: "\<forall>disc fin. isValid now cp = Valid \<and> canUserUse user cp = CanUse \<and>
         calculateDiscount cp (subtotal c) (map ci_product (items c)) [] = Applicable disc fin \<longrightarrow>
         (let c' = (calculateTotals
                      (c\<lparr>coupon := \<lparr>cc_code = Some (code cp), cc_discount = discountValue cp,
                                     cc_discountType = discountType cp\<rparr>\<rparr>))\<lparr>lastUpdated := now\<rparr>
          in applyCoupon now user codeReq d =
               (Success ''Coupon applied successfully'' (CouponData c' disc),
                d\<lparr>carts := (carts d)(user \<mapsto> c')\<rparr>) \<and>
             items c' = items c \<and>
             coupon c' = \<lparr>cc_code = Some (code cp), cc_discount = discountValue cp,
                          cc_discountType = discountType cp\<rparr> \<and>
             totalsOk c')"
      by (simp add: run Let_def save_def putCart_def ok)
    have r1: "\<not> isActive cp \<longrightarrow>
         applyCoupon now user codeReq d = (Failure 400 (Text ''Coupon is inactive''), d)"
      using isValid_refusals [of cp now] by (auto simp: run)
    have r2: "isActive cp \<and> now < startDate cp \<longrightarrow>
         applyCoupon now user codeReq d = (Failure 400 (Text ''Coupon not yet active''), d)"
      using isValid_refusals [of cp now] by (auto simp: run)
    have r3: "isActive cp \<and> startDate cp \<le> now \<and> endDate cp < now \<longrightarrow>
         applyCoupon now user codeReq d = (Failure 400 (Text ''Coupon has expired''), d)"
      using isValid_refusals [of cp now] by (auto simp: run)
    have r4: "isActive cp \<and> startDate cp \<le> now \<and> now \<le> endDate cp \<and>
       (\<exists>t. ul_total (usageLimit cp) = Some t \<and> t \<noteq> 0 \<and> t \<le> usageCount cp) \<longrightarrow>
         applyCoupon now user codeReq d = (Failure 400 (Text ''Usage limit reached''), d)"
      using isValid_refusals [of cp now] by (auto simp: run)
    have r5: "isValid now cp = Valid \<and>
       (\<exists>k u. ul_perUser (usageLimit cp) = Some k \<and> k \<noteq> 0 \<and>
              find (\<lambda>e. ub_user e = user) (usedBy cp) = Some u \<and> k \<le> ub_count u) \<longrightarrow>
         applyCoupon now user codeReq d = (Failure 400 (Text ''Per-user limit reached''), d)"
      by (auto simp: run dest: canUserUse_refusal)
    have r6: "isValid now cp = Valid \<and> canUserUse user cp = CanUse \<and>
       applyTo cp = Products \<and> applicableProducts cp \<noteq> [] \<and>
       set (map ci_product (items c)) \<inter> set (applicableProducts cp) = {} \<longrightarrow>
         applyCoupon now user codeReq d =
           (Failure 400 (Text ''Coupon not applicable to these products''), d)"
      by (simp add: run cd)
    have r7: "isValid now cp = Valid \<and> canUserUse user cp = CanUse \<and>
       applyTo cp = Categories \<and> applicableCategories cp \<noteq> [] \<longrightarrow>
         applyCoupon now user codeReq d =
           (Failure 400 (Text ''Coupon not applicable to these categories''), d)"
      by (simp add: run cd)
    have r8: "isValid now cp = Valid \<and> canUserUse user cp = CanUse \<and>
       \<not> (applyTo cp = Products \<and> applicableProducts cp \<noteq> [] \<and>
          set (map ci_product (items c)) \<inter> set (applicableProducts cp) = {}) \<and>
       \<not> (applyTo cp = Categories \<and> applicableCategories cp \<noteq> []) \<and>
       subtotal c < minimumPurchase cp \<longrightarrow>
         applyCoupon now user codeReq d =
           (Failure 400 (MinimumPurchase (minimumPurchase cp)), d)"
      by (simp add: run cd)
    have r9: "isValid now cp = Valid \<and> canUserUse user cp = CanUse \<and>
       \<not> (applyTo cp = Products \<and> applicableProducts cp \<noteq> [] \<and>
          set (map ci_product (items c)) \<inter> set (applicableProducts cp) = {}) \<and>
       \<not> (applyTo cp = Categories \<and> applicableCategories cp \<noteq> []) \<and>
       minimumPurchase cp \<le> subtotal c \<longrightarrow>
         fst (applyCoupon now user codeReq d) =
            Success ''Coupon applied successfully''
              (CouponData (save now (c\<lparr>coupon := \<lparr>cc_code = Some (code cp),
                   cc_discount = discountValue cp, cc_discountType = discountType cp\<rparr>\<rparr>))
                 (round2 (if discountType cp = Percentage then
                    (case maximumDiscount cp of
                       Some m \<Rightarrow> if m \<noteq> 0 then min (subtotal c * discountValue cp / 100) m
                                 else subtotal c * discountValue cp / 100
                     | None \<Rightarrow> subtotal c * discountValue cp / 100)
                  else discountValue cp))) \<and>
         carts (snd (applyCoupon now user codeReq d)) user =
           Some (save now (c\<lparr>coupon := \<lparr>cc_code = Some (code cp),
                   cc_discount = discountValue cp, cc_discountType = discountType cp\<rparr>\<rparr>))"
      by (simp add: run cd Let_def putCart_def)
    from o1 o2 o3 o4 r1 r2 r3 r4 r5 r6 r7 r8 r9
    show "(\<forall>r. isValid now cp = Invalid r \<longrightarrow>
         applyCoupon now user codeReq d = (Failure 400 (Text r), d)) \<and>
      (\<forall>r. isValid now cp = Valid \<and> canUserUse user cp = CannotUse r \<longrightarrow>
         applyCoupon now user codeReq d = (Failure 400 (Text r), d)) \<and>
      (\<forall>m. isValid now cp = Valid \<and> canUserUse user cp = CanUse \<and>
         calculateDiscount cp (subtotal c) (map ci_product (items c)) [] = NotApplicable m \<longrightarrow>
         applyCoupon now user codeReq d = (Failure 400 m, d)) \<and>
      (\<forall>disc fin. isValid now cp = Valid \<and> canUserUse user cp = CanUse \<and>
         calculateDiscount cp (subtotal c) (map ci_product (items c)) [] = Applicable disc fin \<longrightarrow>
         (let c' = (calculateTotals
                      (c\<lparr>coupon := \<lparr>cc_code = Some (code cp), cc_discount = discountValue cp,
                                     cc_discountType = discountType cp\<rparr>\<rparr>))\<lparr>lastUpdated := now\<rparr>
          in applyCoupon now user codeReq d =
               (Success ''Coupon applied successfully'' (CouponData c' disc),
                d\<lparr>carts := (carts d)(user \<mapsto> c')\<rparr>) \<and>
             items c' = items c \<and>
             coupon c' = \<lparr>cc_code = Some (code cp), cc_discount = discountValue cp,
                          cc_discountType = discountType cp\<rparr> \<and>
             totalsOk c')) \<and>
      (\<not> isActive cp \<longrightarrow>
         applyCoupon now user codeReq d = (Failure 400 (Text ''Coupon is inactive''), d)) \<and>
      (isActive cp \<and> now < startDate cp \<longrightarrow>
         applyCoupon now user codeReq d = (Failure 400 (Text ''Coupon not yet active''), d)) \<and>
      (isActive cp \<and> startDate cp \<le> now \<and> endDate cp < now \<longrightarrow>
         applyCoupon now user codeReq d = (Failure 400 (Text ''Coupon has expired''), d)) \<and>
      (isActive cp \<and> startDate cp \<le> now \<and> now \<le> endDate cp \<and>
       (\<exists>t. ul_total (usageLimit cp) = Some t \<and> t \<noteq> 0 \<and> t \<le> usageCount cp) \<longrightarrow>
         applyCoupon now user codeReq d = (Failure 400 (Text ''Usage limit reached''), d)) \<and>
      (isValid now cp = Valid \<and>
       (\<exists>k u. ul_perUser (usageLimit cp) = Some k \<and> k \<noteq> 0 \<and>
              find (\<lambda>e. ub_user e = user) (usedBy cp) = Some u \<and> k \<le> ub_count u) \<longrightarrow>
         applyCoupon now user codeReq d = (Failure 400 (Text ''Per-user limit reached''), d)) \<and>
      (isValid now cp = Valid \<and> canUserUse user cp = CanUse \<and>
       applyTo cp = Products \<and> applicableProducts cp \<noteq> [] \<and>
       set (map ci_product (items c)) \<inter> set (applicableProducts cp) = {} \<longrightarrow>
         applyCoupon now user codeReq d =
           (Failure 400 (Text ''Coupon not applicable to these products''), d)) \<and>
      (isValid now cp = Valid \<and> canUserUse user cp = CanUse \<and>
       applyTo cp = Categories \<and> applicableCategories cp \<noteq> [] \<longrightarrow>
         applyCoupon now user codeReq d =
           (Failure 400 (Text ''Coupon not applicable to these categories''), d)) \<and>
      (isValid now cp = Valid \<and> canUserUse user cp = CanUse \<and>
       \<not> (applyTo cp = Products \<and> applicableProducts cp \<noteq> [] \<and>
          set (map ci_product (items c)) \<inter> set (applicableProducts cp) = {}) \<and>
       \<not> (applyTo cp = Categories \<and> applicableCategories cp \<noteq> []) \<and>
       subtotal c < minimumPurchase cp \<longrightarrow>
         applyCoupon now user codeReq d =
           (Failure 400 (MinimumPurchase (minimumPurchase cp)), d)) \<and>
      (isValid now cp = Valid \<and> canUserUse user cp = CanUse \<and>
       \<not> (applyTo cp = Products \<and> applicableProducts cp \<noteq> [] \<and>
          set (map ci_product (items c)) \<inter> set (applicableProducts cp) = {}) \<and>
       \<not> (applyTo cp = Categories \<and> applicableCategories cp \<noteq> []) \<and>
       minimumPurchase cp \<le> subtotal c \<longrightarrow>
         fst (applyCoupon now user codeReq d) =
            Success ''Coupon applied successfully''
              (CouponData (save now (c\<lparr>coupon := \<lparr>cc_code = Some (code cp),
                   cc_discount = discountValue cp, cc_discountType = discountType cp\<rparr>\<rparr>))
                 (round2 (if discountType cp = Percentage then
                    (case maximumDiscount cp of
                       Some m \<Rightarrow> if m \<noteq> 0 then min (subtotal c * discountValue cp / 100) m
                                 else subtotal c * discountValue cp / 100
                     | None \<Rightarrow> subtotal c * discountValue cp / 100)
                  else discountValue cp))) \<and>
         carts (snd (applyCoupon now user codeReq d)) user =
           Some (save now (c\<lparr>coupon := \<lparr>cc_code = Some (code cp),
                   cc_discount = discountValue cp, cc_discountType = discountType cp\<rparr>\<rparr>)))"
      by (intro conjI)
  qed
qed


theorem applyCoupon_checks_witness:
  "carts exDbLimits 1 \<noteq> None \<and> items (the (carts exDbLimits 1)) \<noteq> [] \<and>
   find (\<lambda>cp. code cp = castCode (toUpperCase ''once'')) (coupons exDbLimits) = Some onceCoupon \<and>
   isValid 5 onceCoupon = Valid \<and> ul_perUser (usageLimit onceCoupon) = Some 1 \<and>
   map_option ub_count (find (\<lambda>e. ub_user e = 1) (usedBy onceCoupon)) = Some 1 \<and>
   applyCoupon 5 1 ''once'' exDbLimits
     = (Failure 400 (Text ''Per-user limit reached''), exDbLimits) \<and>
   find (\<lambda>cp. code cp = castCode (toUpperCase ''spent'')) (coupons exDbLimits) = Some spentCoupon \<and>
   ul_total (usageLimit spentCoupon) = Some 2 \<and> usageCount spentCoupon = 2 \<and>
   applyCoupon 5 1 ''spent'' exDbLimits
     = (Failure 400 (Text ''Usage limit reached''), exDbLimits) \<and>
   applyCoupon 2000 1 ''  save10 '' exDbLimits
     = (Failure 400 (Text ''Coupon has expired''), exDbLimits) \<and>
   find (\<lambda>cp. code cp = castCode (toUpperCase ''  save10 '')) (coupons exDbLimits)
     = Some (freshCoupon 0 ''SAVE10'' Percentage 10 1000) \<and>
   fst (applyCoupon 5 1 ''  save10 '' exDbLimits) =
     Success ''Coupon applied successfully''
       (CouponData (save 5 ((the (carts exDbLimits 1))
           \<lparr>coupon := \<lparr>cc_code = Some ''SAVE10'', cc_discount = 10,
                        cc_discountType = Percentage\<rparr>\<rparr>)) 2) \<and>
   map_option (\<lambda>c. (cc_code (coupon c), discount c, total c))
     (carts (snd (applyCoupon 5 1 ''  save10 '' exDbLimits)) 1)
     = Some (Some ''SAVE10'', 2, 2543 / 100)"
proof -
  let ?cp = "freshCoupon 0 ''SAVE10'' Percentage 10 1000"
  let ?c = "the (carts exDbLimits 1)"
  have n: "carts exDbLimits 1 \<noteq> None" by code_simp
  then have s: "carts exDbLimits 1 = Some ?c" by simp
  have i: "items ?c \<noteq> []" by code_simp
  have f1: "find (\<lambda>cp. code cp = castCode (toUpperCase ''once'')) (coupons exDbLimits)
      = Some onceCoupon" by code_simp
  have f2: "find (\<lambda>cp. code cp = castCode (toUpperCase ''spent'')) (coupons exDbLimits)
      = Some spentCoupon" by code_simp
  have f3: "find (\<lambda>cp. code cp = castCode (toUpperCase ''  save10 '')) (coupons exDbLimits)
      = Some ?cp" by code_simp
  have v1: "isValid 5 onceCoupon = Valid" by code_simp
  have u1: "ul_perUser (usageLimit onceCoupon) = Some 1"
    "find (\<lambda>e. ub_user e = 1) (usedBy onceCoupon)
       = Some \<lparr>ub_user = 1, ub_count = 1, ub_lastUsed = 3\<rparr>"
    by (simp_all add: onceCoupon_def)
  have t2: "isActive spentCoupon" "startDate spentCoupon \<le> 5" "5 \<le> endDate spentCoupon"
    "ul_total (usageLimit spentCoupon) = Some 2" "usageCount spentCoupon = 2"
    by (simp_all add: spentCoupon_def freshCoupon_def)
  have t3: "isActive ?cp" "startDate ?cp \<le> 2000" "endDate ?cp < 2000"
    by (simp_all add: freshCoupon_def)
  have v3: "isValid 5 ?cp = Valid" "canUserUse 1 ?cp = CanUse" by code_simp+
  have g3: "\<not> (applyTo ?cp = Products \<and> applicableProducts ?cp \<noteq> [] \<and>
          set (map ci_product (items ?c)) \<inter> set (applicableProducts ?cp) = {})"
    "\<not> (applyTo ?cp = Categories \<and> applicableCategories ?cp \<noteq> [])"
    "minimumPurchase ?cp \<le> subtotal ?c"
    by code_simp+
  have cp: "code ?cp = ''SAVE10'' \<and> discountValue ?cp = 10 \<and> discountType ?cp = Percentage \<and>
     maximumDiscount ?cp = None"
    by (simp add: freshCoupon_def)
  have rr: "round2 (subtotal ?c / 10) = 2" by code_simp
  from applyCoupon_checks [of 5 1 "''once''" exDbLimits onceCoupon ?c] s i f1 v1 u1
  have a: "applyCoupon 5 1 ''once'' exDbLimits
     = (Failure 400 (Text ''Per-user limit reached''), exDbLimits)"
    by auto
  from applyCoupon_checks [of 5 1 "''spent''" exDbLimits spentCoupon ?c] s i f2 t2
  have b: "applyCoupon 5 1 ''spent'' exDbLimits
     = (Failure 400 (Text ''Usage limit reached''), exDbLimits)"
    by auto
  from applyCoupon_checks [of 2000 1 "''  save10 ''" exDbLimits ?cp ?c] s i f3 t3
  have e: "applyCoupon 2000 1 ''  save10 '' exDbLimits
     = (Failure 400 (Text ''Coupon has expired''), exDbLimits)"
    by blast
  from applyCoupon_checks [of 5 1 "''  save10 ''" exDbLimits ?cp ?c] s i f3 v3 g3
  have "fst (applyCoupon 5 1 ''  save10 '' exDbLimits) =
            Success ''Coupon applied successfully''
              (CouponData (save 5 (?c\<lparr>coupon := \<lparr>cc_code = Some (code ?cp),
                   cc_discount = discountValue ?cp, cc_discountType = discountType ?cp\<rparr>\<rparr>))
                 (round2 (if discountType ?cp = Percentage then
                    (case maximumDiscount ?cp of
                       Some m \<Rightarrow> if m \<noteq> 0 then min (subtotal ?c * discountValue ?cp / 100) m
                                 else subtotal ?c * discountValue ?cp / 100
                     | None \<Rightarrow> subtotal ?c * discountValue ?cp / 100)
                  else discountValue ?cp)))"
    by blast
  then have k: "fst (applyCoupon 5 1 ''  save10 '' exDbLimits) =
     Success ''Coupon applied successfully''
       (CouponData (save 5 (?c
           \<lparr>coupon := \<lparr>cc_code = Some ''SAVE10'', cc_discount = 10,
                        cc_discountType = Percentage\<rparr>\<rparr>)) 2)"
    using rr by (simp add: cp)
  have m: "map_option (\<lambda>c. (cc_code (coupon c), discount c, total c))
     (carts (snd (applyCoupon 5 1 ''  save10 '' exDbLimits)) 1)
     = Some (Some ''SAVE10'', 2, 2543 / 100)" by code_simp
  have w: "map_option ub_count (find (\<lambda>e. ub_user e = 1) (usedBy onceCoupon)) = Some 1"
    by code_simp
  from n i f1 v1 u1(1) w a f2 t2(4,5) b e f3 k m show ?thesis by blast
qed

section \<open>Inventory ledger\<close>

lemma inventoryTotal_sum: "inventoryTotal xs = sum_list (map inv_quantity xs)"
  by (simp add: inventoryTotal_def foldl_add_sum_list)

lemma product_save_inventory [simp]: "p_inventory (product_save l p) = p_inventory p"
  by (simp add: product_save_def)

lemma product_save_sales [simp]: "p_salesCount (product_save l p) = p_salesCount p"
  by (simp add: product_save_def)

lemma product_save_fresh:
  "p_totalQuantity p = inventoryTotal (p_inventory p) \<Longrightarrow> product_save l p = p"
  by (simp add: product_save_def)

lemma product_save_same:
  "p_inventory p = p_inventory l \<Longrightarrow> product_save l p = p"
  by (simp add: product_save_def)

lemma stock_updateFirst:
  "(\<And>i. inv_sku (f i) = inv_sku i) \<Longrightarrow>
   map_option inv_quantity (findSku s (updateFirst (\<lambda>i. inv_sku i = s') f xs))
   = map_option (\<lambda>i. if s = s' then inv_quantity (f i) else inv_quantity i) (findSku s xs)"
  by (induction xs) (auto simp: findSku_def)

lemma findSku_updateFirst:
  "findSku s xs = Some it \<Longrightarrow> (\<And>i. inv_sku (f i) = inv_sku i) \<Longrightarrow>
   findSku s (updateFirst (\<lambda>i. inv_sku i = s) f xs) = Some (f it)"
  by (induction xs) (auto simp: findSku_def split: if_splits)

lemma stockKept_refl: "stockKept ps ps"
  by (auto simp: stockKept_def)

lemma stockKept_trans: "stockKept ps ps' \<Longrightarrow> stockKept ps' ps'' \<Longrightarrow> stockKept ps ps''"
  unfolding stockKept_def qtyConsistent_def
  by (metis option.inject)

lemma stockKept_upd:
  "ps pid = Some p \<Longrightarrow>
   qtyConsistent p' \<or> (p_inventory p' = p_inventory p \<and> p_totalQuantity p' = p_totalQuantity p) \<Longrightarrow>
   stockKept ps (ps(pid \<mapsto> p'))"
  by (auto simp: stockKept_def)

lemma updateStock_shape:
  "(findSku sku (p_inventory p) = None \<longrightarrow> product_updateStock sku q p = p) \<and>
   (\<forall>it. findSku sku (p_inventory p) = Some it \<longrightarrow>
      findSku sku (p_inventory (product_updateStock sku q p)) =
        Some (it\<lparr>inv_quantity := max 0 (inv_quantity it - q)\<rparr>) \<and>
      qtyConsistent (product_updateStock sku q p))"
  by (auto simp: product_updateStock_def Let_def product_save_fresh findSku_updateFirst
       qtyConsistent_def inventoryTotal_sum)

lemma updateStock_kept:
  "qtyConsistent (product_updateStock sku q p) \<or> product_updateStock sku q p = p"
  using updateStock_shape [of sku p q] by (cases "findSku sku (p_inventory p)") auto

lemma checkout_kept: "stockKept ps (snd (createOrder_updateStock its ps))"
proof (induction its ps rule: createOrder_updateStock.induct)
  case (1 ps)
  then show ?case by (simp add: stockKept_refl)
next
  case (2 item rest ps)
  show ?case
  proof (cases "ps (ci_product item)")
    case None
    then show ?thesis by (simp add: stockKept_refl)
  next
    case (Some p)
    let ?p1 = "product_updateStock (ci_sku item) (ci_quantity item) p"
    let ?p2 = "?p1\<lparr>p_salesCount := p_salesCount ?p1 + ci_quantity item\<rparr>"
    have e: "product_save ?p1 ?p2 = ?p2" by (simp add: product_save_same)
    have "qtyConsistent ?p2 \<or>
       (p_inventory ?p2 = p_inventory p \<and> p_totalQuantity ?p2 = p_totalQuantity p)"
      using updateStock_kept [of "ci_sku item" "ci_quantity item" p]
      by (auto simp: qtyConsistent_def)
    then have "stockKept ps (ps(ci_product item \<mapsto> ?p2))"
      using Some by (intro stockKept_upd) auto
    moreover have "stockKept (ps(ci_product item \<mapsto> ?p2))
        (snd (createOrder_updateStock rest (ps(ci_product item \<mapsto> ?p2))))"
      using "2.IH" [OF Some refl refl] by (simp only: e)
    ultimately have "stockKept ps
        (snd (createOrder_updateStock rest (ps(ci_product item \<mapsto> ?p2))))"
      by (rule stockKept_trans)
    then show ?thesis
      using Some e by (simp add: Let_def)
  qed
qed

lemma restoreItem_kept: "stockKept ps (restoreItem it ps)"
  by (auto simp: restoreItem_def Let_def stockKept_refl product_save_fresh qtyConsistent_def
        inventoryTotal_sum product_save_def
      intro!: stockKept_upd split: option.splits)

lemma restore_kept: "stockKept ps (fold restoreItem its ps)"
proof (induction its arbitrary: ps)
  case Nil
  then show ?case by (simp add: stockKept_refl)
next
  case (Cons it its)
  show ?case using restoreItem_kept [of ps it] Cons [of "restoreItem it ps"]
    by (simp) (rule stockKept_trans)
qed


lemma stockOf_restoreItem:
  "stockOf (restoreItem it ps) pid sku =
   map_option (\<lambda>n. if oi_product it = pid \<and> oi_sku it = sku then n + oi_quantity it else n)
     (stockOf ps pid sku)"
proof (cases "ps (oi_product it)")
  case None
  then show ?thesis
    by (cases "oi_product it = pid")
       (auto simp: restoreItem_def stockOf_def option.map_ident split: option.splits)
next
  case (Some p)
  show ?thesis
  proof (cases "findSku (oi_sku it) (p_inventory p)")
    case None
    with Some show ?thesis
      by (cases "oi_product it = pid \<and> oi_sku it = sku")
         (auto simp: restoreItem_def stockOf_def findSku_def option.map_ident
           split: option.splits)
  next
    case (Some inv0)
    have "map_option inv_quantity (findSku sku (updateFirst (\<lambda>i. inv_sku i = oi_sku it)
            (\<lambda>i. i\<lparr>inv_quantity := inv_quantity i + oi_quantity it\<rparr>) (p_inventory p)))
      = map_option (\<lambda>i. if sku = oi_sku it then inv_quantity (i\<lparr>inv_quantity := inv_quantity i + oi_quantity it\<rparr>)
                          else inv_quantity i) (findSku sku (p_inventory p))"
      by (rule stock_updateFirst) simp
    with Some \<open>ps (oi_product it) = Some p\<close> show ?thesis
      by (cases "findSku sku (p_inventory p)")
         (auto simp: restoreItem_def stockOf_def Let_def option.map_ident)
  qed
qed

lemma salesOf_restoreItem:
  "salesOf (restoreItem it ps) pid =
   map_option (\<lambda>n. if oi_product it = pid \<and> stockOf ps pid (oi_sku it) \<noteq> None
                    then n - oi_quantity it else n)
     (salesOf ps pid)"
  by (cases "ps pid")
     (auto simp: restoreItem_def salesOf_def stockOf_def Let_def option.map_ident
       split: option.splits)

lemma stockOf_restore_fold:
  "stockOf (fold restoreItem its ps) pid sku =
   map_option (\<lambda>n. n + restoredQty its pid sku) (stockOf ps pid sku)"
proof (induction its arbitrary: ps)
  case Nil
  then show ?case by (simp add: restoredQty_def option.map_ident)
next
  case (Cons it its)
  show ?case
    by (cases "stockOf ps pid sku")
       (simp_all add: Cons stockOf_restoreItem restoredQty_def)
qed

lemma restoredSales_step:
  "restoredSales (restoreItem it ps) its pid = restoredSales ps its pid"
proof -
  have "(stockOf (restoreItem it ps) pid s \<noteq> None) = (stockOf ps pid s \<noteq> None)" for s
    by (simp add: stockOf_restoreItem)
  then show ?thesis by (simp add: restoredSales_def)
qed

lemma salesOf_restore_fold:
  "salesOf (fold restoreItem its ps) pid =
   map_option (\<lambda>n. n - restoredSales ps its pid) (salesOf ps pid)"
proof (induction its arbitrary: ps)
  case Nil
  then show ?case by (simp add: restoredSales_def option.map_ident)
next
  case (Cons it its)
  have "restoredSales ps (it # its) pid =
     (if oi_product it = pid \<and> stockOf ps pid (oi_sku it) \<noteq> None then oi_quantity it else 0)
       + restoredSales ps its pid"
    by (auto simp: restoredSales_def)
  then show ?case
    by (cases "salesOf ps pid")
       (auto simp: Cons salesOf_restoreItem restoredSales_step)
qed


lemma updateStock_inventory:
  "p_inventory (product_updateStock s q p) =
   updateFirst (\<lambda>i. inv_sku i = s) (\<lambda>i. i\<lparr>inv_quantity := max 0 (inv_quantity i - q)\<rparr>)
     (p_inventory p)"
  by (cases "findSku s (p_inventory p)")
     (simp_all add: product_updateStock_def Let_def updateFirst_none findSku_def)

lemma stockOf_checkout_step:
  assumes "ps productId = Some p"
  shows "stockOf (ps(productId \<mapsto> (product_updateStock s q p)\<lparr>p_salesCount := x\<rparr>)) pid sku =
    map_option (\<lambda>n. if pid = productId \<and> sku = s then max 0 (n - q) else n) (stockOf ps pid sku)"
proof -
  have "map_option inv_quantity (findSku sku (updateFirst (\<lambda>i. inv_sku i = s)
            (\<lambda>i. i\<lparr>inv_quantity := max 0 (inv_quantity i - q)\<rparr>) (p_inventory p)))
      = map_option (\<lambda>i. if sku = s then inv_quantity (i\<lparr>inv_quantity := max 0 (inv_quantity i - q)\<rparr>)
                          else inv_quantity i) (findSku sku (p_inventory p))"
    by (rule stock_updateFirst) simp
  with assms show ?thesis
    by (cases "findSku sku (p_inventory p)")
       (auto simp: stockOf_def updateStock_inventory option.map_ident)
qed

lemma checkout_nonneg:
  "fst (createOrder_updateStock its ps) \<Longrightarrow>
   stockOf (snd (createOrder_updateStock its ps)) pid sku = Some n \<Longrightarrow>
   (\<exists>item \<in> set its. ci_product item = pid \<and> ci_sku item = sku) \<or>
     (\<forall>m. stockOf ps pid sku = Some m \<longrightarrow> 0 \<le> m) \<Longrightarrow>
   0 \<le> n"
proof (induction its ps rule: createOrder_updateStock.induct)
  case (1 ps)
  then show ?case by simp
next
  case (2 item rest ps)
  show ?case
  proof (cases "ps (ci_product item)")
    case None
    with "2.prems"(1) show ?thesis by simp
  next
    case (Some p)
    let ?p1 = "product_updateStock (ci_sku item) (ci_quantity item) p"
    let ?p2 = "?p1\<lparr>p_salesCount := p_salesCount ?p1 + ci_quantity item\<rparr>"
    let ?ps1 = "ps(ci_product item \<mapsto> ?p2)"
    have e: "product_save ?p1 ?p2 = ?p2" by (simp add: product_save_same)
    have unf: "createOrder_updateStock (item # rest) ps = createOrder_updateStock rest ?ps1"
      using Some e by (simp add: Let_def)
    have st: "stockOf ?ps1 pid sku =
      map_option (\<lambda>n. if pid = ci_product item \<and> sku = ci_sku item
                       then max 0 (n - ci_quantity item) else n) (stockOf ps pid sku)"
      using Some by (rule stockOf_checkout_step)
    have d: "(\<exists>i \<in> set rest. ci_product i = pid \<and> ci_sku i = sku) \<or>
       (\<forall>m. stockOf ?ps1 pid sku = Some m \<longrightarrow> 0 \<le> m)"
      using "2.prems"(3) by (auto simp: st)
    have ih: "fst (createOrder_updateStock rest ?ps1) \<Longrightarrow>
       stockOf (snd (createOrder_updateStock rest ?ps1)) pid sku = Some n \<Longrightarrow>
       (\<exists>i \<in> set rest. ci_product i = pid \<and> ci_sku i = sku) \<or>
         (\<forall>m. stockOf ?ps1 pid sku = Some m \<longrightarrow> 0 \<le> m) \<Longrightarrow> 0 \<le> n"
      using "2.IH" [OF Some refl refl] by (simp only: e)
    from "2.prems"(1,2) show ?thesis
      unfolding unf by (rule ih [OF _ _ d])
  qed
qed

lemma admin_shape:
  "products d productId = Some p \<Longrightarrow> findSku sku (p_inventory p) = Some it \<Longrightarrow>
   \<exists>p'. updateStock productId sku q d =
          (Success ''Stock updated successfully'' (StockData sku q (p_totalQuantity p')),
           d\<lparr>products := (products d)(productId \<mapsto> p')\<rparr>) \<and>
        qtyConsistent p' \<and> findSku sku (p_inventory p') = Some (it\<lparr>inv_quantity := q\<rparr>)"
proof -
  assume a: "products d productId = Some p" and b: "findSku sku (p_inventory p) = Some it"
  let ?inv = "updateFirst (\<lambda>i. inv_sku i = sku) (\<lambda>i. i\<lparr>inv_quantity := q\<rparr>) (p_inventory p)"
  let ?p' = "p\<lparr>p_inventory := ?inv, p_totalQuantity := inventoryTotal ?inv\<rparr>"
  have "updateStock productId sku q d =
          (Success ''Stock updated successfully'' (StockData sku q (p_totalQuantity ?p')),
           d\<lparr>products := (products d)(productId \<mapsto> ?p')\<rparr>)"
    using a b by (simp add: updateStock_def Let_def product_save_fresh)
  moreover have "qtyConsistent ?p'"
    by (simp add: qtyConsistent_def inventoryTotal_sum)
  moreover have "findSku sku (p_inventory ?p') = Some (it\<lparr>inv_quantity := q\<rparr>)"
    using b by (simp add: findSku_updateFirst)
  ultimately show ?thesis by blast
qed

lemma admin_kept: "stockKept (products d) (products (snd (updateStock productId sku q d)))"
proof (cases "products d productId")
  case None
  then show ?thesis by (simp add: updateStock_def stockKept_refl)
next
  case (Some p)
  show ?thesis
  proof (cases "findSku sku (p_inventory p)")
    case None
    with Some show ?thesis by (simp add: updateStock_def stockKept_refl)
  next
    case (Some it)
    from admin_shape [OF \<open>products d productId = Some p\<close> Some, of q]
    obtain p' where "updateStock productId sku q d =
          (Success ''Stock updated successfully'' (StockData sku q (p_totalQuantity p')),
           d\<lparr>products := (products d)(productId \<mapsto> p')\<rparr>)" and "qtyConsistent p'"
      by blast
    with \<open>products d productId = Some p\<close> show ?thesis
      by (auto intro: stockKept_upd)
  qed
qed

lemma cancel_kept:
  "stockKept (products d) (products (snd (cancelOrder now user orderId reason d)))"
  by (auto simp: cancelOrder_def Let_def stockKept_refl restore_kept split: option.splits)


text \<open>
  C2. The checkout decrement \<^verbatim>\<open>updateStock\<close> sets the quantity of the SKU's record to
  \<open>max 0 (quantity - requested)\<close>, which is not negative, leaves the other SKUs as they
  were and does nothing when the product has no such SKU. After a decrement that found
  its SKU the product's \<open>totalQuantity\<close> is the sum of its records' quantities. Over the
  product collection, after the checkout loop, after a cancellation and after the admin
  stock update, each product has \<open>totalQuantity\<close> equal to that sum unless its
  inventory and total were not touched; every SKU the checkout decremented ends with a
  quantity of at least 0; a successful admin update stores the given quantity.
\<close>

theorem inventory_ledger:
  "(findSku sku (p_inventory p) = None \<longrightarrow> product_updateStock sku q p = p) \<and>
   (\<forall>it. findSku sku (p_inventory p) = Some it \<longrightarrow>
      findSku sku (p_inventory (product_updateStock sku q p)) =
        Some (it\<lparr>inv_quantity := max 0 (inv_quantity it - q)\<rparr>) \<and>
      0 \<le> inv_quantity (it\<lparr>inv_quantity := max 0 (inv_quantity it - q)\<rparr>) \<and>
      qtyConsistent (product_updateStock sku q p)) \<and>
   (\<forall>s. s \<noteq> sku \<longrightarrow>
      map_option inv_quantity (findSku s (p_inventory (product_updateStock sku q p))) =
      map_option inv_quantity (findSku s (p_inventory p))) \<and>
   (\<forall>pid s n. fst (createOrder_updateStock its ps) \<and>
      (\<exists>item \<in> set its. ci_product item = pid \<and> ci_sku item = s) \<and>
      stockOf (snd (createOrder_updateStock its ps)) pid s = Some n \<longrightarrow> 0 \<le> n) \<and>
   (\<forall>pid p'. snd (createOrder_updateStock its ps) pid = Some p' \<longrightarrow>
      qtyConsistent p' \<or>
      (\<exists>p0. ps pid = Some p0 \<and> p_inventory p' = p_inventory p0 \<and>
            p_totalQuantity p' = p_totalQuantity p0)) \<and>
   (\<forall>pid p'. products (snd (cancelOrder now user orderId reason d)) pid = Some p' \<longrightarrow>
      qtyConsistent p' \<or>
      (\<exists>p0. products d pid = Some p0 \<and> p_inventory p' = p_inventory p0 \<and>
            p_totalQuantity p' = p_totalQuantity p0)) \<and>
   (\<forall>pid p'. products (snd (updateStock productId sku q d)) pid = Some p' \<longrightarrow>
      qtyConsistent p' \<or>
      (\<exists>p0. products d pid = Some p0 \<and> p_inventory p' = p_inventory p0 \<and>
            p_totalQuantity p' = p_totalQuantity p0)) \<and>
   (\<forall>msg pl. fst (updateStock productId sku q d) = Success msg pl \<longrightarrow>
      (\<exists>p'. products (snd (updateStock productId sku q d)) productId = Some p' \<and> qtyConsistent p' \<and>
            stockOf (products (snd (updateStock productId sku q d))) productId sku = Some q))"
proof (intro conjI)
  show "findSku sku (p_inventory p) = None \<longrightarrow> product_updateStock sku q p = p"
    using updateStock_shape [of sku p q] by blast
  show "\<forall>it. findSku sku (p_inventory p) = Some it \<longrightarrow>
      findSku sku (p_inventory (product_updateStock sku q p)) =
        Some (it\<lparr>inv_quantity := max 0 (inv_quantity it - q)\<rparr>) \<and>
      0 \<le> inv_quantity (it\<lparr>inv_quantity := max 0 (inv_quantity it - q)\<rparr>) \<and>
      qtyConsistent (product_updateStock sku q p)"
    using updateStock_shape [of sku p q] by simp
  show "\<forall>s. s \<noteq> sku \<longrightarrow>
      map_option inv_quantity (findSku s (p_inventory (product_updateStock sku q p))) =
      map_option inv_quantity (findSku s (p_inventory p))"
  proof (intro allI impI)
    fix s :: string assume "s \<noteq> sku"
    have "map_option inv_quantity (findSku s (updateFirst (\<lambda>i. inv_sku i = sku)
            (\<lambda>i. i\<lparr>inv_quantity := max 0 (inv_quantity i - q)\<rparr>) (p_inventory p)))
      = map_option (\<lambda>i. if s = sku then inv_quantity (i\<lparr>inv_quantity := max 0 (inv_quantity i - q)\<rparr>)
                          else inv_quantity i) (findSku s (p_inventory p))"
      by (rule stock_updateFirst) simp
    with \<open>s \<noteq> sku\<close> show "map_option inv_quantity (findSku s (p_inventory (product_updateStock sku q p))) =
      map_option inv_quantity (findSku s (p_inventory p))"
      by (simp add: updateStock_inventory)
  qed
  show "\<forall>pid s n. fst (createOrder_updateStock its ps) \<and>
      (\<exists>item \<in> set its. ci_product item = pid \<and> ci_sku item = s) \<and>
      stockOf (snd (createOrder_updateStock its ps)) pid s = Some n \<longrightarrow> 0 \<le> n"
    using checkout_nonneg [of its ps] by blast
  show "\<forall>pid p'. snd (createOrder_updateStock its ps) pid = Some p' \<longrightarrow>
      qtyConsistent p' \<or>
      (\<exists>p0. ps pid = Some p0 \<and> p_inventory p' = p_inventory p0 \<and>
            p_totalQuantity p' = p_totalQuantity p0)"
    using checkout_kept [of ps its] by (simp add: stockKept_def)
  show "\<forall>pid p'. products (snd (cancelOrder now user orderId reason d)) pid = Some p' \<longrightarrow>
      qtyConsistent p' \<or>
      (\<exists>p0. products d pid = Some p0 \<and> p_inventory p' = p_inventory p0 \<and>
            p_totalQuantity p' = p_totalQuantity p0)"
    using cancel_kept [of d now user orderId reason] by (simp add: stockKept_def)
  show "\<forall>pid p'. products (snd (updateStock productId sku q d)) pid = Some p' \<longrightarrow>
      qtyConsistent p' \<or>
      (\<exists>p0. products d pid = Some p0 \<and> p_inventory p' = p_inventory p0 \<and>
            p_totalQuantity p' = p_totalQuantity p0)"
    using admin_kept [of d productId sku q] by (simp add: stockKept_def)
  show "\<forall>msg pl. fst (updateStock productId sku q d) = Success msg pl \<longrightarrow>
      (\<exists>p'. products (snd (updateStock productId sku q d)) productId = Some p' \<and> qtyConsistent p' \<and>
            stockOf (products (snd (updateStock productId sku q d))) productId sku = Some q)"
  proof (intro allI impI)
    fix msg pl assume ok: "fst (updateStock productId sku q d) = Success msg pl"
    then obtain p it where a: "products d productId = Some p" and b: "findSku sku (p_inventory p) = Some it"
      by (auto simp: updateStock_def split: option.splits)
    from admin_shape [OF a b, of q]
    show "\<exists>p'. products (snd (updateStock productId sku q d)) productId = Some p' \<and> qtyConsistent p' \<and>
            stockOf (products (snd (updateStock productId sku q d))) productId sku = Some q"
      by (auto simp: stockOf_def)
  qed
qed

theorem inventory_ledger_witness:
  "findSku ''MUG-1'' (p_inventory exProduct) =
     Some \<lparr>inv_sku = ''MUG-1'', inv_quantity = 5, inv_lowStockThreshold = 10\<rparr> \<and>
   findSku ''MUG-1'' (p_inventory (product_updateStock ''MUG-1'' 7 exProduct)) =
     Some \<lparr>inv_sku = ''MUG-1'', inv_quantity = 0, inv_lowStockThreshold = 10\<rparr> \<and>
   qtyConsistent (product_updateStock ''MUG-1'' 7 exProduct) \<and>
   p_totalQuantity (product_updateStock ''MUG-1'' 7 exProduct) = 3 \<and>
   fst (updateStock 8 ''PLATE-1'' 6 exShop) =
     Success ''Stock updated successfully'' (StockData ''PLATE-1'' 6 6) \<and>
   stockOf (products (snd (updateStock 8 ''PLATE-1'' 6 exShop))) 8 ''PLATE-1'' = Some 6 \<and>
   stockOf (snd (createOrder_updateStock [mkItem 1 7 ''MUG-1'' 20 7] (products exShop)))
     7 ''MUG-1'' = Some 0"
proof -
  have k: "stockOf (snd (createOrder_updateStock [mkItem 1 7 ''MUG-1'' 20 7] (products exShop)))
     7 ''MUG-1'' = Some 0" by code_simp
  let ?it = "\<lparr>inv_sku = ''MUG-1'', inv_quantity = 5, inv_lowStockThreshold = 10\<rparr>"
  have f: "findSku ''MUG-1'' (p_inventory exProduct) = Some ?it" by code_simp
  have t: "p_totalQuantity (product_updateStock ''MUG-1'' 7 exProduct) = 3" by code_simp
  have u: "fst (updateStock 8 ''PLATE-1'' 6 exShop) =
     Success ''Stock updated successfully'' (StockData ''PLATE-1'' 6 6)" by code_simp
  from inventory_ledger [where sku = "''MUG-1''" and p = exProduct and q = 7 and its = "[]"
      and ps = Map.empty and now = 0 and user = 1 and orderId = 50 and reason = None
      and d = exShop and productId = 7] f
  have a: "findSku ''MUG-1'' (p_inventory (product_updateStock ''MUG-1'' 7 exProduct)) =
        Some (?it\<lparr>inv_quantity := max 0 (inv_quantity ?it - 7)\<rparr>) \<and>
      qtyConsistent (product_updateStock ''MUG-1'' 7 exProduct)"
    by blast
  from inventory_ledger [where sku = "''PLATE-1''" and p = exPlate and q = 6 and its = "[]"
      and ps = Map.empty and now = 0 and user = 1 and orderId = 50 and reason = None
      and d = exShop and productId = 8] u
  have b: "stockOf (products (snd (updateStock 8 ''PLATE-1'' 6 exShop))) 8 ''PLATE-1'' = Some 6"
    by blast
  from f a t u b k show ?thesis by simp
qed

section \<open>Cancellation\<close>

text \<open>
  C6 as stated fails where a line item names a SKU its product no longer holds. User 1
  cancels the pending order 52, three mugs of SKU MUG-9: the cancellation succeeds, the
  loop's guard \<^verbatim>\<open>if (inventoryItem)\<close> skips the line, no quantity grows and the mug's
  \<open>salesCount\<close> stays 4 instead of falling by 3.
\<close>

theorem cancelOrder_salesCount_counterexample:
  "orders exShopGone 52 = Some exOrderGone \<and> o_user exOrderGone = 1 \<and>
   o_status exOrderGone = Pending \<and>
   map oi_product (o_items exOrderGone) = [7] \<and> map oi_sku (o_items exOrderGone) = [''MUG-9''] \<and>
   map oi_quantity (o_items exOrderGone) = [3] \<and>
   fst (cancelOrder 9 1 52 None exShopGone) =
     Success ''Order cancelled successfully''
       (OrderData (order_cancel 9 ''Cancelled by customer'' 1 exOrderGone)) \<and>
   salesOf (products exShopGone) 7 = Some 4 \<and>
   salesOf (products (snd (cancelOrder 9 1 52 None exShopGone))) 7 = Some 4 \<and>
   salesOf (products (snd (cancelOrder 9 1 52 None exShopGone))) 7 \<noteq> Some (4 - 3) \<and>
   stockOf (products (snd (cancelOrder 9 1 52 None exShopGone))) 7 ''MUG-9'' = None \<and>
   stockOf (products (snd (cancelOrder 9 1 52 None exShopGone))) 7 ''MUG-1'' = Some 5 \<and>
   stockOf (products (snd (cancelOrder 9 1 52 None exShopGone))) 7 ''MUG-2'' = Some 3"
  by code_simp

text \<open>
  C6, amended. For an order found for the requesting user: from a status other than
  pending or processing the handler replies with the 400 state error and returns the
  database unchanged, so the order keeps its status. From pending or processing it
  succeeds: the order gets status cancelled and exactly one more timeline entry; for each
  line item whose product still exists and still holds the item's SKU, that SKU's quantity
  grows by the item's quantity and the product's \<open>salesCount\<close> falls by the same
  amount; a line whose product or SKU no longer exists changes nothing. When every line
  of a product names a SKU it holds, its \<open>salesCount\<close> falls by the quantities of all
  its lines.
\<close>

theorem cancelOrder_contract:
  assumes "orders d orderId = Some ord" and "o_user ord = user"
  shows
  "(o_status ord \<noteq> Pending \<and> o_status ord \<noteq> Processing \<longrightarrow>
      cancelOrder now user orderId reason d =
        (Failure 400 (Text (''Cannot cancel order with status: '' @ statusName (o_status ord))), d)) \<and>
   (o_status ord = Pending \<or> o_status ord = Processing \<longrightarrow>
      (\<exists>ord' ev.
         fst (cancelOrder now user orderId reason d) =
           Success ''Order cancelled successfully'' (OrderData ord') \<and>
         orders (snd (cancelOrder now user orderId reason d)) = (orders d)(orderId \<mapsto> ord') \<and>
         o_status ord' = Cancelled \<and> o_items ord' = o_items ord \<and>
         o_timeline ord' = o_timeline ord @ [ev] \<and> tl_status ev = ''cancelled'' \<and>
         length (o_timeline ord') = length (o_timeline ord) + 1) \<and>
      (\<forall>pid sku. stockOf (products (snd (cancelOrder now user orderId reason d))) pid sku =
         map_option (\<lambda>n. n + restoredQty (o_items ord) pid sku) (stockOf (products d) pid sku)) \<and>
      (\<forall>pid. salesOf (products (snd (cancelOrder now user orderId reason d))) pid =
         map_option (\<lambda>n. n - restoredSales (products d) (o_items ord) pid)
           (salesOf (products d) pid)) \<and>
      (\<forall>pid. (\<forall>i \<in> set (o_items ord). oi_product i = pid \<longrightarrow>
                 stockOf (products d) pid (oi_sku i) \<noteq> None) \<longrightarrow>
         salesOf (products (snd (cancelOrder now user orderId reason d))) pid =
         map_option
           (\<lambda>n. n - sum_list (map oi_quantity (filter (\<lambda>i. oi_product i = pid) (o_items ord))))
           (salesOf (products d) pid)) \<and>
      (\<forall>pid sku. stockOf (products d) pid sku = None \<longrightarrow>
         stockOf (products (snd (cancelOrder now user orderId reason d))) pid sku = None))"
proof (intro conjI impI)
  assume "o_status ord \<noteq> Pending \<and> o_status ord \<noteq> Processing"
  with assms show "cancelOrder now user orderId reason d =
        (Failure 400 (Text (''Cannot cancel order with status: '' @ statusName (o_status ord))), d)"
    by (simp add: cancelOrder_def)
next
  assume st: "o_status ord = Pending \<or> o_status ord = Processing"
  let ?r = "if truthyStr reason then the reason else ''Cancelled by customer''"
  have run: "cancelOrder now user orderId reason d =
     (Success ''Order cancelled successfully'' (OrderData (order_cancel now ?r user ord)),
      d\<lparr>products := fold restoreItem (o_items ord) (products d),
        orders := (orders d)(orderId \<mapsto> order_cancel now ?r user ord)\<rparr>)"
    using assms st by (auto simp: cancelOrder_def Let_def)
  show "\<exists>ord' ev.
         fst (cancelOrder now user orderId reason d) =
           Success ''Order cancelled successfully'' (OrderData ord') \<and>
         orders (snd (cancelOrder now user orderId reason d)) = (orders d)(orderId \<mapsto> ord') \<and>
         o_status ord' = Cancelled \<and> o_items ord' = o_items ord \<and>
         o_timeline ord' = o_timeline ord @ [ev] \<and> tl_status ev = ''cancelled'' \<and>
         length (o_timeline ord') = length (o_timeline ord) + 1"
    unfolding run
    by (intro exI [of _ "order_cancel now ?r user ord"]
          exI [of _ "\<lparr>tl_status = ''cancelled'',
            tl_description = ''Order cancelled. Reason: '' @ ?r,
            tl_timestamp = now, tl_updatedBy = Some user\<rparr>"])
       (simp add: order_cancel_def)
  show "\<forall>pid sku. stockOf (products (snd (cancelOrder now user orderId reason d))) pid sku =
         map_option (\<lambda>n. n + restoredQty (o_items ord) pid sku) (stockOf (products d) pid sku)"
    unfolding run by (simp add: stockOf_restore_fold)
  show "\<forall>pid. salesOf (products (snd (cancelOrder now user orderId reason d))) pid =
         map_option (\<lambda>n. n - restoredSales (products d) (o_items ord) pid)
           (salesOf (products d) pid)"
    unfolding run by (simp add: salesOf_restore_fold)
  show "\<forall>pid. (\<forall>i \<in> set (o_items ord). oi_product i = pid \<longrightarrow>
                 stockOf (products d) pid (oi_sku i) \<noteq> None) \<longrightarrow>
         salesOf (products (snd (cancelOrder now user orderId reason d))) pid =
         map_option
           (\<lambda>n. n - sum_list (map oi_quantity (filter (\<lambda>i. oi_product i = pid) (o_items ord))))
           (salesOf (products d) pid)"
  proof (intro allI impI)
    fix pid
    assume h: "\<forall>i \<in> set (o_items ord). oi_product i = pid \<longrightarrow>
                 stockOf (products d) pid (oi_sku i) \<noteq> None"
    have "filter (\<lambda>i. oi_product i = pid \<and> stockOf (products d) pid (oi_sku i) \<noteq> None)
            (o_items ord) = filter (\<lambda>i. oi_product i = pid) (o_items ord)"
      using h by (intro filter_cong) auto
    then have "restoredSales (products d) (o_items ord) pid =
       sum_list (map oi_quantity (filter (\<lambda>i. oi_product i = pid) (o_items ord)))"
      by (simp add: restoredSales_def)
    then show "salesOf (products (snd (cancelOrder now user orderId reason d))) pid =
         map_option
           (\<lambda>n. n - sum_list (map oi_quantity (filter (\<lambda>i. oi_product i = pid) (o_items ord))))
           (salesOf (products d) pid)"
      unfolding run by (simp add: salesOf_restore_fold)
  qed
  show "\<forall>pid sku. stockOf (products d) pid sku = None \<longrightarrow>
         stockOf (products (snd (cancelOrder now user orderId reason d))) pid sku = None"
    unfolding run by (simp add: stockOf_restore_fold)
qed

theorem cancelOrder_contract_witness:
  "orders exShop 50 = Some exOrder \<and> o_user exOrder = 1 \<and> o_status exOrder = Pending \<and>
   map oi_quantity (o_items exOrder) = [2, 1] \<and>
   stockOf (products exShop) 7 ''MUG-1'' = Some 5 \<and>
   stockOf (products (snd (cancelOrder 9 1 50 None exShop))) 7 ''MUG-1'' = Some 7 \<and>
   stockOf (products exShop) 8 ''PLATE-1'' = Some 0 \<and>
   stockOf (products (snd (cancelOrder 9 1 50 None exShop))) 8 ''PLATE-1'' = Some 1 \<and>
   salesOf (products exShop) 7 = Some 4 \<and>
   salesOf (products (snd (cancelOrder 9 1 50 None exShop))) 7 = Some 2 \<and>
   salesOf (products (snd (cancelOrder 9 1 50 None exShop))) 8 = Some 0 \<and>
   map_option o_status (orders (snd (cancelOrder 9 1 50 None exShop)) 50) = Some Cancelled \<and>
   map_option (length \<circ> o_timeline) (orders (snd (cancelOrder 9 1 50 None exShop)) 50) = Some 2 \<and>
   cancelOrder 9 1 51 None exShop =
     (Failure 400 (Text ''Cannot cancel order with status: delivered''), exShop)"
proof -
  have o: "orders exShop 50 = Some exOrder" "o_user exOrder = 1" "o_status exOrder = Pending"
    "map oi_quantity (o_items exOrder) = [2, 1]"
    by (simp_all add: exShop_def exOrder_def)
  have o2: "orders exShop 51 = Some (exOrder\<lparr>o_status := Delivered\<rparr>)"
    "o_user (exOrder\<lparr>o_status := Delivered\<rparr>) = 1"
    by (simp_all add: exShop_def exOrder_def)
  have v: "stockOf (products exShop) 7 ''MUG-1'' = Some 5"
    "stockOf (products exShop) 8 ''PLATE-1'' = Some 0"
    "salesOf (products exShop) 7 = Some 4" "salesOf (products exShop) 8 = Some 1"
    "restoredQty (o_items exOrder) 7 ''MUG-1'' = 2"
    "restoredQty (o_items exOrder) 8 ''PLATE-1'' = 1"
    "restoredSales (products exShop) (o_items exOrder) 7 = 2"
    "restoredSales (products exShop) (o_items exOrder) 8 = 1"
    by code_simp+
  have e: "map_option o_status (orders (snd (cancelOrder 9 1 50 None exShop)) 50) = Some Cancelled"
    "map_option (length \<circ> o_timeline) (orders (snd (cancelOrder 9 1 50 None exShop)) 50) = Some 2"
    by code_simp+
  note c = cancelOrder_contract [OF o(1) o(2), of 9 None]
  from c o(3) have s: "stockOf (products (snd (cancelOrder 9 1 50 None exShop))) pid sku =
         map_option (\<lambda>n. n + restoredQty (o_items exOrder) pid sku) (stockOf (products exShop) pid sku)"
    for pid sku by blast
  from c o(3) have t: "salesOf (products (snd (cancelOrder 9 1 50 None exShop))) pid =
         map_option (\<lambda>n. n - restoredSales (products exShop) (o_items exOrder) pid)
           (salesOf (products exShop) pid)" for pid by blast
  from cancelOrder_contract [OF o2, of 9 None]
  have f: "cancelOrder 9 1 51 None exShop =
     (Failure 400 (Text ''Cannot cancel order with status: delivered''), exShop)"
    by simp
  have r: "stockOf (products (snd (cancelOrder 9 1 50 None exShop))) 7 ''MUG-1'' = Some 7"
    "stockOf (products (snd (cancelOrder 9 1 50 None exShop))) 8 ''PLATE-1'' = Some 1"
    "salesOf (products (snd (cancelOrder 9 1 50 None exShop))) 7 = Some 2"
    "salesOf (products (snd (cancelOrder 9 1 50 None exShop))) 8 = Some 0"
    using s [of 7 "''MUG-1''"] s [of 8 "''PLATE-1''"] t [of 7] t [of 8] v by simp_all
  from o v(1-3) e f r show ?thesis by blast
qed

end
